theory Spec2Isabelle
  imports Complex_Main
begin

section \<open>Exceptions and characters\<close>

text \<open>
  The Python exceptions that the modelled code raises or catches. \<open>NoTranscriptFound\<close> is
  the class the caption code names in its \<open>except\<close> clause; \<open>TypeError\<close> is what a
  call with missing arguments raises; \<open>ValueError\<close> is what \<open>float\<close> raises;
  \<open>OSError\<close> is what \<open>open\<close> raises; \<open>LibraryError\<close> stands for every other
  exception of a collaborating library, with the text that \<open>str(e)\<close> gives.
\<close>

datatype exn = NoTranscriptFound | TypeError | ValueError | OSError | LibraryError string

text \<open>
  Strings are lists of 8-bit characters, so the model covers the code points below 256.
  There the class \<open>\d\<close> of Python's \<open>re\<close> is exactly the ASCII digits.
\<close>

definition ESC :: char where
  "ESC = CHR 0x1B"

definition is_digit :: "char \<Rightarrow> bool" where
  "is_digit c = (c \<in> set ''0123456789'')"

definition digit_val :: "char \<Rightarrow> nat" where
  "digit_val c = of_char c - 48"

definition digit_char :: "nat \<Rightarrow> char" where
  "digit_char d = char_of (48 + d)"

section \<open>extract_percent\<close>

text \<open>
  The first \<open>re.sub\<close> deletes every match of the pattern: the escape character, an
  opening bracket, a run of digits and semicolons, the letter \<open>m\<close>. \<open>is_param\<close> is the
  class of digits and semicolons. \<open>match_ansi s\<close> matches the pattern at the start of
  \<open>s\<close> and gives the text after the match: the star is greedy, and since \<open>m\<close> is not in the class no shorter run can be
  followed by \<open>m\<close>, so only the maximal run has to be tried. \<open>strip_ansi\<close> is the
  left-to-right scan of \<open>re.sub\<close>: at a match the matched text is dropped and the scan goes
  on after it, otherwise the character is kept.
\<close>

definition is_param :: "char \<Rightarrow> bool" where
  "is_param c = (is_digit c \<or> c = CHR '';'')"

fun match_ansi :: "string \<Rightarrow> string option" where
  "match_ansi (a # b # cs) =
     (if a = ESC \<and> b = CHR ''['' then
        (case dropWhile is_param cs of
           [] \<Rightarrow> None
         | m # rest \<Rightarrow> if m = CHR ''m'' then Some rest else None)
      else None)"
| "match_ansi _ = None"

function strip_ansi :: "string \<Rightarrow> string" where
  "strip_ansi [] = []"
| "strip_ansi (c # cs) =
     (case match_ansi (c # cs) of
        Some rest \<Rightarrow> strip_ansi rest
      | None \<Rightarrow> c # strip_ansi cs)"
  by pat_completeness auto
termination
proof (relation "measure length")
  show "wf (measure length)" by simp
next
  fix c :: char and cs rest :: string
  assume m: "match_ansi (c # cs) = Some rest"
  show "(rest, c # cs) \<in> measure length"
  proof (cases cs)
    case Nil
    with m show ?thesis by simp
  next
    case (Cons b ds)
    have "length (dropWhile is_param ds) \<le> length ds"
      by (rule length_dropWhile_le)
    with m Cons show ?thesis
      by (auto split: if_splits list.splits)
  qed
next
  fix c :: char and cs :: string
  show "(cs, c # cs) \<in> measure length" by simp
qed

text \<open>The second \<open>re.sub\<close> deletes every character that is neither a digit nor a dot.\<close>

definition is_numeric_char :: "char \<Rightarrow> bool" where
  "is_numeric_char c = (is_digit c \<or> c = CHR ''.'')"

definition strip_non_numeric :: "string \<Rightarrow> string" where
  "strip_non_numeric s = filter is_numeric_char s"

text \<open>
  \<open>float(clean_str)\<close> on a string of digits and dots, the only strings that reach it:
  the string parses when it has at most one dot and at least one digit, and raises
  \<open>ValueError\<close> otherwise. The value is the exact decimal value as a rational; the
  rounding of Python's binary floating point to the nearest double is not modelled.
\<close>

definition digits_value :: "string \<Rightarrow> nat" where
  "digits_value ds = foldl (\<lambda>a c. 10 * a + digit_val c) 0 ds"

definition py_float :: "string \<Rightarrow> exn + rat" where
  "py_float s =
     (let ip = takeWhile is_digit s; r = dropWhile is_digit s in
      case r of
        [] \<Rightarrow> if ip = [] then Inl ValueError else Inr (of_nat (digits_value ip))
      | c # fp \<Rightarrow>
          if c = CHR ''.'' \<and> list_all is_digit fp \<and> (ip \<noteq> [] \<or> fp \<noteq> [])
          then Inr (of_nat (digits_value ip) + of_nat (digits_value fp) / 10 ^ length fp)
          else Inl ValueError)"

text \<open>
  The body of \<open>extract_percent\<close>: the two substitutions, then \<open>float\<close> under
  \<open>try\<close>, where \<open>except ValueError\<close> gives \<open>0.0\<close> and any other exception would
  leave the function.
\<close>

definition extract_percent :: "string \<Rightarrow> exn + rat" where
  "extract_percent percent_str =
     (let clean_str = strip_ansi percent_str;
          clean_str = strip_non_numeric clean_str in
      case py_float clean_str of
        Inr v \<Rightarrow> Inr v
      | Inl ValueError \<Rightarrow> Inr 0
      | Inl e \<Rightarrow> Inl e)"

section \<open>format_time\<close>

text \<open>
  Seconds are rationals: Python's \<open>divmod\<close> on a positive divisor is floor division with
  its remainder, \<open>int\<close> truncates toward zero. Floating-point rounding is not modelled.
\<close>

definition py_divmod :: "rat \<Rightarrow> rat \<Rightarrow> rat \<times> rat" where
  "py_divmod x y = (of_int \<lfloor>x / y\<rfloor>, x - of_int \<lfloor>x / y\<rfloor> * y)"

definition py_int :: "rat \<Rightarrow> int" where
  "py_int x = (if 0 \<le> x then \<lfloor>x\<rfloor> else \<lceil>x\<rceil>)"

text \<open>\<open>str(n)\<close> for a natural number, and the format specs \<open>:02\<close> and \<open>:03\<close>
  (sign first, then zeros up to the width).\<close>

fun str_nat :: "nat \<Rightarrow> string" where
  "str_nat n = (if n < 10 then [digit_char n] else str_nat (n div 10) @ [digit_char (n mod 10)])"

declare str_nat.simps [simp del]

definition zfill :: "nat \<Rightarrow> string \<Rightarrow> string" where
  "zfill w s = replicate (w - length s) (CHR ''0'') @ s"

definition fmt_int :: "nat \<Rightarrow> int \<Rightarrow> string" where
  "fmt_int w n =
     (if n < 0 then CHR ''-'' # zfill (w - 1) (str_nat (nat (- n)))
      else zfill w (str_nat (nat n)))"

definition format_time :: "rat \<Rightarrow> string" where
  "format_time seconds =
     (let (hours, remainder) = py_divmod seconds 3600;
          (minutes, seconds) = py_divmod remainder 60;
          milliseconds = py_int ((seconds - of_int (py_int seconds)) * 1000)
      in fmt_int 2 (py_int hours) @ '':'' @ fmt_int 2 (py_int minutes) @ '':'' @
         fmt_int 2 (py_int seconds) @ '','' @ fmt_int 3 milliseconds)"

section \<open>Caption entries and their serialization\<close>

text \<open>
  One entry of a fetched transcript: the keys \<open>start\<close> and \<open>text\<close> are read with
  \<open>entry[...]\<close>, \<open>duration\<close> with \<open>entry.get('duration', 0)\<close>, so it may be absent.
\<close>

record entry =
  entry_start :: rat
  entry_duration :: "rat option"
  entry_text :: string

definition NL :: char where
  "NL = CHR 0x0A"

definition replace_newline :: "string \<Rightarrow> string" where
  "replace_newline s = map (\<lambda>c. if c = NL then CHR '' '' else c) s"

text \<open>What one pass of the SRT loop writes for the entry at index \<open>i\<close> of \<open>enumerate\<close>.\<close>

definition cue_block :: "nat \<Rightarrow> entry \<Rightarrow> string" where
  "cue_block i e =
     (let start = entry_start e;
          duration = (case entry_duration e of None \<Rightarrow> 0 | Some d \<Rightarrow> d);
          end_time = start + duration;
          txt = replace_newline (entry_text e)
      in str_nat (i + 1) @ [NL] @ format_time start @ '' --> '' @ format_time end_time @ [NL] @
         txt @ [NL, NL])"

fun write_srt :: "nat \<Rightarrow> entry list \<Rightarrow> string" where
  "write_srt i [] = []"
| "write_srt i (e # es) = cue_block i e @ write_srt (Suc i) es"

fun write_txt :: "entry list \<Rightarrow> string" where
  "write_txt [] = []"
| "write_txt (e # es) = (entry_text e @ [NL]) @ write_txt es"

section \<open>Application state and collaborators\<close>

datatype mode = Video | Audio

datatype language = Korean | English | AllLanguages

datatype sub_label = KoreanSub | EnglishSub | EnglishAutoSub

text \<open>
  The status texts, one constructor per message of the source (the Korean and the
  English variant show the same messages in their own language).
\<close>

datatype msg =
    EnterUrl
  | SelectOptions
  | AllCompleted
  | PartiallyCompleted
  | ErrorOccurred exn
  | CaptionFailed exn
  | CaptionDownloading
  | NoKoreanSubtitle
  | NoEnglishSubtitle
  | NoSubtitleFound
  | CaptionDone "sub_label list"
  | MediaFailed mode exn

datatype call = MetadataLookup string | ListTranscripts string | YdlDownload string mode

text \<open>
  The mutable state: \<open>status_log\<close> holds every text given to \<open>update_status\<close>, oldest
  first, so the visible status is its last element; \<open>files\<close> holds the files the program
  writes, with their contents; \<open>calls\<close> holds the calls to the network collaborators.
\<close>

record app =
  status_log :: "msg list"
  caption_progress :: rat
  video_progress :: rat
  audio_progress :: rat
  files :: "(string \<times> string) list"
  calls :: "call list"

record ui =
  url_entry :: string
  title_var :: string
  download_path :: string
  sub_check :: bool
  video_check :: bool
  audio_check :: bool
  srt_check :: bool
  resolution_var :: string
  language_var :: language

text \<open>
  The transcript list of \<open>youtube_transcript_api\<close>, a library outside the repository,
  taken as a parameter: what its lookups answer, the tracks in iteration order, and the
  attribute and the two methods of a track that the code uses. \<open>'tr\<close> is the type of
  tracks.
\<close>

record 'tr provider =
  find_transcript :: "string list \<Rightarrow> exn + 'tr"
  find_generated_transcript :: "string list \<Rightarrow> exn + 'tr"
  iter_tracks :: "'tr list"
  is_translatable :: "'tr \<Rightarrow> bool"
  translate :: "'tr \<Rightarrow> string \<Rightarrow> exn + 'tr"
  fetch :: "'tr \<Rightarrow> exn + entry list"

record clock =
  year :: nat
  month :: nat
  day :: nat
  hour :: nat
  minute :: nat

datatype event = Downloading string | Finished | OtherStatus

record ydl_opts =
  format :: string
  outtmpl :: string
  merge_output_format :: string
  extract_mp3 :: bool

record ydl_result =
  events :: "event list"
  raised :: "exn option"

text \<open>
  The environment: the answers of the collaborators (transcript API, \<open>pytube\<close>,
  \<open>yt_dlp\<close>), the wall clock, whether \<open>open(path, 'w')\<close> succeeds, and
  \<open>os.path.join\<close>.
\<close>

record 'tr env =
  list_transcripts :: "string \<Rightarrow> exn + 'tr provider"
  youtube_title :: "string \<Rightarrow> exn + string"
  now :: clock
  can_open :: "string \<Rightarrow> bool"
  path_join :: "string \<Rightarrow> string \<Rightarrow> string"
  ydl_download :: "ydl_opts \<Rightarrow> string \<Rightarrow> ydl_result"

definition update_status :: "app \<Rightarrow> msg \<Rightarrow> app" where
  "update_status st message = st\<lparr>status_log := status_log st @ [message]\<rparr>"

definition log_call :: "app \<Rightarrow> call \<Rightarrow> app" where
  "log_call st c = st\<lparr>calls := calls st @ [c]\<rparr>"

section \<open>get_safe_filename\<close>

text \<open>\<open>str.strip()\<close>: the white space of Python among the code points below 256.\<close>

definition is_space :: "char \<Rightarrow> bool" where
  "is_space c = ((of_char c :: nat) \<in> set [9, 10, 11, 12, 13, 28, 29, 30, 31, 32, 133, 160])"

definition py_strip :: "string \<Rightarrow> string" where
  "py_strip s = rev (dropWhile is_space (rev (dropWhile is_space s)))"

text \<open>\<open>strftime('%y%m%d_%H%M')\<close>: two digits each, the year without its century.\<close>

definition strftime :: "clock \<Rightarrow> string" where
  "strftime t =
     zfill 2 (str_nat (year t mod 100)) @ zfill 2 (str_nat (month t)) @ zfill 2 (str_nat (day t)) @
     ''_'' @ zfill 2 (str_nat (hour t)) @ zfill 2 (str_nat (minute t))"

text \<open>
  The bare \<open>except\<close> catches whatever the metadata lookup raises. The lookup is logged
  in \<open>calls\<close> when it is reached.
\<close>

definition get_safe_filename :: "'tr env \<Rightarrow> ui \<Rightarrow> app \<Rightarrow> string \<Rightarrow> string \<Rightarrow> app \<times> string" where
  "get_safe_filename env u st url video_id =
     (if py_strip (title_var u) \<noteq> [] then (st, py_strip (title_var u))
      else
        (let st = log_call st (MetadataLookup url) in
         case youtube_title env url of
           Inr title \<Rightarrow> (st, title)
         | Inl e \<Rightarrow>
             (let current_time = strftime (now env) in (st, ''download_'' @ current_time))))"

section \<open>Progress hook and media download\<close>

definition set_progress :: "mode \<Rightarrow> rat \<Rightarrow> app \<Rightarrow> app" where
  "set_progress m v st =
     (case m of Video \<Rightarrow> st\<lparr>video_progress := v\<rparr> | Audio \<Rightarrow> st\<lparr>audio_progress := v\<rparr>)"

text \<open>
  A failing step gives \<open>Inl (e, st)\<close>: the exception together with the state reached
  when it was raised.
\<close>

definition progress_hook :: "mode \<Rightarrow> app \<Rightarrow> event \<Rightarrow> exn \<times> app + app" where
  "progress_hook m st d =
     (case d of
        Downloading percent_str \<Rightarrow>
          (case extract_percent percent_str of
             Inl e \<Rightarrow> Inl (e, st)
           | Inr percent \<Rightarrow> Inr (set_progress m percent st))
      | Finished \<Rightarrow> Inr (set_progress m 100 st)
      | OtherStatus \<Rightarrow> Inr st)"

fun run_hooks :: "mode \<Rightarrow> app \<Rightarrow> event list \<Rightarrow> exn \<times> app + app" where
  "run_hooks m st [] = Inr st"
| "run_hooks m st (d # ds) =
     (case progress_hook m st d of
        Inl x \<Rightarrow> Inl x
      | Inr st' \<Rightarrow> run_hooks m st' ds)"

text \<open>
  \<open>ydl.download([url])\<close>: the library delivers its progress events to the hook and then
  returns or raises.
\<close>

definition ydl_run :: "'tr env \<Rightarrow> ydl_opts \<Rightarrow> string \<Rightarrow> mode \<Rightarrow> app \<Rightarrow> exn \<times> app + app" where
  "ydl_run env opts url m st =
     (let st = log_call st (YdlDownload url m);
          r = ydl_download env opts url in
      case run_hooks m st (events r) of
        Inl x \<Rightarrow> Inl x
      | Inr st' \<Rightarrow> (case raised r of Some e \<Rightarrow> Inl (e, st') | None \<Rightarrow> Inr st'))"

definition video_format :: "string \<Rightarrow> string" where
  "video_format resolution =
     ''bv*[height<='' @ resolution @ '']+ba/b[height<='' @ resolution @ '']''"

definition download_video_audio_v100 ::
  "'tr env \<Rightarrow> ui \<Rightarrow> app \<Rightarrow> string \<Rightarrow> string \<Rightarrow> mode \<Rightarrow> exn \<times> app + app" where
  "download_video_audio_v100 env u st url safe_title m =
     (let file_ext = (if m = Video then ''mp4'' else ''mp3'');
          resolution = filter (\<lambda>c. c \<noteq> CHR ''p'') (resolution_var u);
          opts = \<lparr>format = (if m = Video then video_format resolution else ''bestaudio/best''),
                  outtmpl = path_join env (download_path u) (safe_title @ ''.'' @ file_ext),
                  merge_output_format = file_ext,
                  extract_mp3 = False\<rparr>
      in ydl_run env opts url m st)"

definition download_video_audio_v101 ::
  "'tr env \<Rightarrow> ui \<Rightarrow> app \<Rightarrow> string \<Rightarrow> string \<Rightarrow> mode \<Rightarrow> app \<times> bool" where
  "download_video_audio_v101 env u st url safe_title m =
     (let file_ext = (if m = Video then ''mp4'' else ''mp3'');
          resolution = filter (\<lambda>c. c \<noteq> CHR ''p'') (resolution_var u);
          output_filename = path_join env (download_path u) (safe_title @ ''.%(ext)s'');
          opts = \<lparr>format = (if m = Video then video_format resolution else ''bestaudio/best''),
                  outtmpl = output_filename,
                  merge_output_format = file_ext,
                  extract_mp3 = (m = Audio)\<rparr>
      in case ydl_run env opts url m st of
           Inr st' \<Rightarrow> (st', True)
         | Inl (e, st') \<Rightarrow> (update_status st' (MediaFailed m e), False))"

section \<open>Saving captions\<close>

text \<open>
  \<open>save_caption_to_file\<close> of v1.0.1; \<open>open\<close> raises when the path cannot be opened for
  writing, otherwise the whole file is written.
\<close>

definition save_caption_to_file ::
  "'tr env \<Rightarrow> app \<Rightarrow> entry list \<Rightarrow> string \<Rightarrow> bool \<Rightarrow> string \<Rightarrow> exn + app \<times> string" where
  "save_caption_to_file env st transcript_data file_path is_srt suffix =
     (let file_ext = (if is_srt then ''srt'' else ''txt'');
          full_path = file_path @ suffix @ ''.'' @ file_ext
      in if \<not> can_open env full_path then Inl OSError
         else Inr (st\<lparr>files := files st @
                     [(full_path, if is_srt then write_srt 0 transcript_data
                                  else write_txt transcript_data)]\<rparr>, full_path))"

section \<open>download_caption, v1.0.0\<close>

text \<open>
  The selection of the track: \<open>find_transcript\<close> on ko, en, ja under
  \<open>except NoTranscriptFound\<close> (any other exception leaves the block), then
  \<open>find_generated_transcript\<close> on ja, en under a bare \<open>except\<close>, then the first track of
  the iteration or \<open>None\<close>. On \<open>None\<close> the code evaluates
  \<open>raise NoTranscriptFound(message)\<close>: the constructor of the library's class takes the
  video id, the requested language codes and the transcript data, so the call with the
  message alone raises \<open>TypeError\<close>, and that is the exception that leaves the block.
\<close>

definition select_transcript :: "'tr provider \<Rightarrow> exn + 'tr" where
  "select_transcript available_transcripts =
     (let transcript =
        (case find_transcript available_transcripts [''ko'', ''en'', ''ja''] of
           Inr t \<Rightarrow> Inr (Some t)
         | Inl NoTranscriptFound \<Rightarrow>
             (case find_generated_transcript available_transcripts [''ja'', ''en''] of
                Inr t \<Rightarrow> Inr (Some t)
              | Inl e \<Rightarrow>
                  Inr (case iter_tracks available_transcripts of [] \<Rightarrow> None | t # ts \<Rightarrow> Some t))
         | Inl e \<Rightarrow> Inl e)
      in case transcript of
           Inl e \<Rightarrow> Inl e
         | Inr None \<Rightarrow> Inl TypeError
         | Inr (Some t) \<Rightarrow> Inr t)"

text \<open>A translatable track is replaced by its English translation; then the entries are fetched.\<close>

definition fetch_transcript :: "'tr provider \<Rightarrow> 'tr \<Rightarrow> exn + entry list" where
  "fetch_transcript available_transcripts transcript =
     (case (if is_translatable available_transcripts transcript
            then translate available_transcripts transcript ''en''
            else Inr transcript) of
        Inl e \<Rightarrow> Inl e
      | Inr transcript \<Rightarrow> fetch available_transcripts transcript)"

text \<open>The body of the \<open>try\<close> of \<open>download_caption\<close>.\<close>

definition caption_try_v100 ::
  "'tr env \<Rightarrow> ui \<Rightarrow> app \<Rightarrow> string \<Rightarrow> string \<Rightarrow> bool \<Rightarrow> exn \<times> app + app" where
  "caption_try_v100 env u st video_id safe_title is_srt =
     (let st = log_call st (ListTranscripts video_id) in
      case list_transcripts env video_id of
        Inl e \<Rightarrow> Inl (e, st)
      | Inr available_transcripts \<Rightarrow>
          (case select_transcript available_transcripts of
             Inl e \<Rightarrow> Inl (e, st)
           | Inr transcript \<Rightarrow>
               (case fetch_transcript available_transcripts transcript of
                  Inl e \<Rightarrow> Inl (e, st)
                | Inr transcript_data \<Rightarrow>
                    (let file_ext = (if is_srt then ''srt'' else ''txt'');
                         file_path = path_join env (download_path u) (safe_title @ ''.'' @ file_ext)
                     in if \<not> can_open env file_path then Inl (OSError, st)
                        else Inr (st\<lparr>files := files st @
                                    [(file_path, if is_srt then write_srt 0 transcript_data
                                                 else write_txt transcript_data)],
                                  caption_progress := 100\<rparr>)))))"

definition download_caption_v100 ::
  "'tr env \<Rightarrow> ui \<Rightarrow> app \<Rightarrow> string \<Rightarrow> string \<Rightarrow> string \<Rightarrow> bool \<Rightarrow> app" where
  "download_caption_v100 env u st video_id url safe_title is_srt =
     (case caption_try_v100 env u st video_id safe_title is_srt of
        Inr st' \<Rightarrow> st'
      | Inl (e, st') \<Rightarrow> update_status st' (CaptionFailed e))"

section \<open>download_caption, v1.0.1\<close>

text \<open>
  The three inner \<open>try\<close> bodies have one shape: look the track up, fetch it, save it
  under a suffix. Any exception leaves the body with the state as it was.
\<close>

definition fetch_and_save ::
  "'tr env \<Rightarrow> app \<Rightarrow> 'tr provider \<Rightarrow> exn + 'tr \<Rightarrow> string \<Rightarrow> bool \<Rightarrow> string \<Rightarrow> exn + app" where
  "fetch_and_save env st available_transcripts found file_path is_srt suffix =
     (case found of
        Inl e \<Rightarrow> Inl e
      | Inr transcript \<Rightarrow>
          (case fetch available_transcripts transcript of
             Inl e \<Rightarrow> Inl e
           | Inr data \<Rightarrow>
               (case save_caption_to_file env st data file_path is_srt suffix of
                  Inl e \<Rightarrow> Inl e
                | Inr (st', full_path) \<Rightarrow> Inr st')))"

text \<open>The Korean block: state and \<open>downloaded_subtitles\<close> go in and come out.\<close>

definition korean_block ::
  "'tr env \<Rightarrow> 'tr provider \<Rightarrow> language \<Rightarrow> string \<Rightarrow> bool \<Rightarrow> app \<times> sub_label list \<Rightarrow>
   app \<times> sub_label list" where
  "korean_block env available_transcripts selected_language file_path is_srt sd =
     (let (st, downloaded_subtitles) = sd in
      if selected_language \<in> set [Korean, AllLanguages] then
        (case fetch_and_save env st available_transcripts
                (find_transcript available_transcripts [''ko'']) file_path is_srt ''_kr'' of
           Inr st' \<Rightarrow> (st', downloaded_subtitles @ [KoreanSub])
         | Inl e \<Rightarrow>
             if selected_language = Korean
             then (update_status st NoKoreanSubtitle, downloaded_subtitles)
             else (st, downloaded_subtitles))
      else (st, downloaded_subtitles))"

definition english_block ::
  "'tr env \<Rightarrow> 'tr provider \<Rightarrow> language \<Rightarrow> string \<Rightarrow> bool \<Rightarrow> app \<times> sub_label list \<Rightarrow>
   app \<times> sub_label list" where
  "english_block env available_transcripts selected_language file_path is_srt sd =
     (let (st, downloaded_subtitles) = sd in
      if selected_language \<in> set [English, AllLanguages] then
        (case fetch_and_save env st available_transcripts
                (find_transcript available_transcripts [''en'']) file_path is_srt ''_en'' of
           Inr st' \<Rightarrow> (st', downloaded_subtitles @ [EnglishSub])
         | Inl e \<Rightarrow>
             (case fetch_and_save env st available_transcripts
                     (find_generated_transcript available_transcripts [''en''])
                     file_path is_srt ''_auto_en'' of
                Inr st' \<Rightarrow> (st', downloaded_subtitles @ [EnglishAutoSub])
              | Inl e \<Rightarrow>
                  if selected_language = English
                  then (update_status st NoEnglishSubtitle, downloaded_subtitles)
                  else (st, downloaded_subtitles)))
      else (st, downloaded_subtitles))"

text \<open>
  The end of the \<open>try\<close> body: the result message, the progress value and the returned
  flag, from the selected language, the state and \<open>downloaded_subtitles\<close>.
\<close>

definition caption_result :: "language \<Rightarrow> app \<times> sub_label list \<Rightarrow> app \<times> bool" where
  "caption_result selected_language sd =
     (let (st, downloaded_subtitles) = sd in
      if downloaded_subtitles \<noteq> [] then
        (let st = (if length downloaded_subtitles = 1
                   then update_status st (CaptionDone [hd downloaded_subtitles])
                   else update_status st (CaptionDone downloaded_subtitles))
         in (st\<lparr>caption_progress := 100\<rparr>, True))
      else if selected_language = AllLanguages then
        (let st = update_status st NoSubtitleFound
         in (st\<lparr>caption_progress := 0\<rparr>, False))
      else (st\<lparr>caption_progress := 0\<rparr>, False))"

text \<open>
  \<open>download_caption\<close> of v1.0.1. In the outer \<open>try\<close> only \<open>list_transcripts\<close> can
  raise: the inner blocks catch every exception.
\<close>

definition download_caption_v101 ::
  "'tr env \<Rightarrow> ui \<Rightarrow> app \<Rightarrow> string \<Rightarrow> string \<Rightarrow> string \<Rightarrow> bool \<Rightarrow> app \<times> bool" where
  "download_caption_v101 env u st video_id url safe_title is_srt =
     (let st = update_status st CaptionDownloading;
          st = log_call st (ListTranscripts video_id)
      in case list_transcripts env video_id of
           Inl e \<Rightarrow>
             (let st = update_status st (CaptionFailed e) in (st\<lparr>caption_progress := 0\<rparr>, False))
         | Inr available_transcripts \<Rightarrow>
             (let selected_language = language_var u;
                  file_path = path_join env (download_path u) safe_title;
                  sd = korean_block env available_transcripts selected_language file_path is_srt
                         (st, []);
                  sd = english_block env available_transcripts selected_language file_path is_srt sd
              in caption_result selected_language sd))"

section \<open>start_download\<close>

text \<open>
  \<open>url.split("v=")[-1].split("&")[0]\<close>. \<open>split2 x y acc s\<close> splits \<open>s\<close> at the
  occurrences of the two characters \<open>x y\<close>, \<open>split1 x acc s\<close> at the occurrences of
  \<open>x\<close>; \<open>acc\<close> is the current piece, reversed. Both give at least one piece, so the
  indices \<open>[-1]\<close> and \<open>[0]\<close> never raise.
\<close>

fun split2 :: "char \<Rightarrow> char \<Rightarrow> string \<Rightarrow> string \<Rightarrow> string list" where
  "split2 x y acc (a # b # cs) =
     (if a = x \<and> b = y then rev acc # split2 x y [] cs
      else split2 x y (a # acc) (b # cs))"
| "split2 x y acc cs = [rev acc @ cs]"

fun split1 :: "char \<Rightarrow> string \<Rightarrow> string \<Rightarrow> string list" where
  "split1 x acc [] = [rev acc]"
| "split1 x acc (c # cs) =
     (if c = x then rev acc # split1 x [] cs else split1 x (c # acc) cs)"

definition video_id_of :: "string \<Rightarrow> string" where
  "video_id_of url = hd (split1 (CHR ''&'') [] (last (split2 (CHR ''v'') (CHR ''='') [] url)))"

subsection \<open>v1.0.0\<close>

datatype task = CaptionTask | VideoTask | AudioTask

definition run_task_v100 ::
  "'tr env \<Rightarrow> ui \<Rightarrow> string \<Rightarrow> string \<Rightarrow> string \<Rightarrow> app \<Rightarrow> task \<Rightarrow> exn \<times> app + app" where
  "run_task_v100 env u video_id url safe_title st t =
     (case t of
        CaptionTask \<Rightarrow> Inr (download_caption_v100 env u st video_id url safe_title (srt_check u))
      | VideoTask \<Rightarrow> download_video_audio_v100 env u st url safe_title Video
      | AudioTask \<Rightarrow> download_video_audio_v100 env u st url safe_title Audio)"

fun for_tasks_v100 ::
  "'tr env \<Rightarrow> ui \<Rightarrow> string \<Rightarrow> string \<Rightarrow> string \<Rightarrow> app \<Rightarrow> task list \<Rightarrow> exn \<times> app + app" where
  "for_tasks_v100 env u video_id url safe_title st [] = Inr st"
| "for_tasks_v100 env u video_id url safe_title st (t # ts) =
     (case run_task_v100 env u video_id url safe_title st t of
        Inl x \<Rightarrow> Inl x
      | Inr st' \<Rightarrow> for_tasks_v100 env u video_id url safe_title st' ts)"

text \<open>
  \<open>run_tasks\<close> is started on a worker thread; the model runs it to its end, so the
  state returned by \<open>start_download\<close> is the state when the worker has finished.
\<close>

definition run_tasks_v100 ::
  "'tr env \<Rightarrow> ui \<Rightarrow> string \<Rightarrow> string \<Rightarrow> string \<Rightarrow> app \<Rightarrow> task list \<Rightarrow> app" where
  "run_tasks_v100 env u video_id url safe_title st tasks =
     (case for_tasks_v100 env u video_id url safe_title st tasks of
        Inr st' \<Rightarrow> update_status st' AllCompleted
      | Inl (e, st') \<Rightarrow> update_status st' (ErrorOccurred e))"

definition start_download_v100 :: "'tr env \<Rightarrow> ui \<Rightarrow> app \<Rightarrow> app" where
  "start_download_v100 env u st =
     (let url = url_entry u in
      if url = [] then update_status st EnterUrl
      else
        (let video_id = video_id_of url;
             (st, safe_title) = get_safe_filename env u st url video_id;
             tasks = (if sub_check u then [CaptionTask] else []) @
                     (if video_check u then [VideoTask] else []) @
                     (if audio_check u then [AudioTask] else [])
         in if tasks = [] then update_status st SelectOptions
            else run_tasks_v100 env u video_id url safe_title st tasks))"

subsection \<open>v1.0.1\<close>

datatype opt = OptCaption | OptVideo | OptAudio

text \<open>
  \<open>options_selected\<close> is the dictionary in its insertion order; \<open>success\<close> starts all
  \<open>False\<close> and gets the result of each task that runs. Every task catches its own
  exceptions, so the \<open>except\<close> of \<open>run_tasks\<close> has nothing to catch.
\<close>

definition options_selected :: "ui \<Rightarrow> (opt \<times> bool) list" where
  "options_selected u =
     [(OptCaption, sub_check u), (OptVideo, video_check u), (OptAudio, audio_check u)]"

text \<open>
  The end of \<open>run_tasks\<close>: the summary message, from the selected options, the
  \<open>success\<close> dictionary and the state after the tasks.
\<close>

definition summarize_v101 :: "ui \<Rightarrow> (opt \<Rightarrow> bool) \<Rightarrow> app \<Rightarrow> app" where
  "summarize_v101 u success st =
     (let only_caption_failed =
            (sub_check u \<and> \<not> success OptCaption \<and> \<not> video_check u \<and> \<not> audio_check u)
      in if \<not> only_caption_failed then
           (let all_selected_succeeded =
                  list_all (\<lambda>(opt, selected). success opt)
                    (filter (\<lambda>(opt, selected). selected) (options_selected u))
            in if all_selected_succeeded then update_status st AllCompleted
               else
                 (let has_other_success =
                        list_ex (\<lambda>(opt, selected). success opt)
                          (filter (\<lambda>(opt, selected). selected \<and> opt \<noteq> OptCaption)
                             (options_selected u))
                  in if has_other_success then update_status st PartiallyCompleted else st))
         else st)"

definition run_tasks_v101 ::
  "'tr env \<Rightarrow> ui \<Rightarrow> string \<Rightarrow> string \<Rightarrow> string \<Rightarrow> app \<Rightarrow> app" where
  "run_tasks_v101 env u video_id url safe_title st =
     (let (st, s_caption) =
            (if sub_check u
             then download_caption_v101 env u st video_id url safe_title (srt_check u)
             else (st, False));
          (st, s_video) =
            (if video_check u then download_video_audio_v101 env u st url safe_title Video
             else (st, False));
          (st, s_audio) =
            (if audio_check u then download_video_audio_v101 env u st url safe_title Audio
             else (st, False));
          success = (\<lambda>opt. case opt of OptCaption \<Rightarrow> s_caption | OptVideo \<Rightarrow> s_video
                                      | OptAudio \<Rightarrow> s_audio)
      in summarize_v101 u success st)"

definition start_download_v101 :: "'tr env \<Rightarrow> ui \<Rightarrow> app \<Rightarrow> app" where
  "start_download_v101 env u st =
     (let url = url_entry u in
      if url = [] then update_status st EnterUrl
      else
        (let video_id = video_id_of url;
             (st, safe_title) = get_safe_filename env u st url video_id
         in if \<not> list_ex snd (options_selected u) then update_status st SelectOptions
            else run_tasks_v101 env u video_id url safe_title st))"

section \<open>Progress strings\<close>

text \<open>
  A progress string as the downloader sends it is described by its pieces: a colour
  sequence (the escape character, an opening bracket, parameters, \<open>m\<close>) or a plain
  character. \<open>noise\<close> holds of the pieces around the number: colour sequences with
  well-formed parameters, and plain characters that are neither the escape character nor
  a digit nor a dot (blanks, the percent sign).
\<close>

datatype piece = Sgr string | Plain char

fun render :: "piece \<Rightarrow> string" where
  "render (Sgr ps) = ESC # CHR ''['' # ps @ ''m''"
| "render (Plain c) = [c]"

fun noise :: "piece \<Rightarrow> bool" where
  "noise (Sgr ps) = list_all is_param ps"
| "noise (Plain c) = (c \<noteq> ESC \<and> \<not> is_numeric_char c)"

definition render_all :: "piece list \<Rightarrow> string" where
  "render_all ps = concat (map render ps)"

section \<open>Example scenarios\<close>

text \<open>
  Concrete collaborators and settings on which the theorems below are instantiated.
  In \<open>demo_env\<close> the video has captions disabled and the metadata lookup fails; in
  \<open>english_env\<close> the video has one authored English track (track \<open>1\<close>), fetched with a
  single entry, and its title can be looked up.
\<close>

definition demo_clock :: clock where
  "demo_clock = \<lparr>year = 2025, month = 2, day = 20, hour = 9, minute = 5\<rparr>"

definition demo_env :: "nat env" where
  "demo_env =
     \<lparr>list_transcripts = (\<lambda>video_id. Inl (LibraryError ''Subtitles are disabled for this video'')),
      youtube_title = (\<lambda>url. Inl (LibraryError ''unavailable'')),
      now = demo_clock,
      can_open = (\<lambda>path. True),
      path_join = (\<lambda>a b. a @ ''/'' @ b),
      ydl_download = (\<lambda>opts url. \<lparr>events = [Downloading '' 50.0%'', Finished], raised = None\<rparr>)\<rparr>"

definition english_provider :: "nat provider" where
  "english_provider =
     \<lparr>find_transcript = (\<lambda>codes. if ''en'' \<in> set codes then Inr 1 else Inl NoTranscriptFound),
      find_generated_transcript = (\<lambda>codes. Inl NoTranscriptFound),
      iter_tracks = [1],
      is_translatable = (\<lambda>t. True),
      translate = (\<lambda>t code. Inr 2),
      fetch = (\<lambda>t. Inr [\<lparr>entry_start = 0, entry_duration = Some 2,
                             entry_text = (if t = 2 then ''Hello'' else ''Hi'')\<rparr>])\<rparr>"



text \<open>
  \<open>auto_provider\<close> has a single auto-generated English track (track \<open>3\<close>) and no
  authored track.
\<close>

definition auto_provider :: "nat provider" where
  "auto_provider =
     \<lparr>find_transcript = (\<lambda>codes. Inl NoTranscriptFound),
      find_generated_transcript = (\<lambda>codes. if ''en'' \<in> set codes then Inr 3 else Inl NoTranscriptFound),
      iter_tracks = [3],
      is_translatable = (\<lambda>t. False),
      translate = (\<lambda>t code. Inl (LibraryError ''not translatable'')),
      fetch = (\<lambda>t. Inr [\<lparr>entry_start = 0, entry_duration = Some 2, entry_text = ''Hey''\<rparr>])\<rparr>"

definition english_env :: "nat env" where
  "english_env =
     \<lparr>list_transcripts = (\<lambda>video_id. Inr english_provider),
      youtube_title = (\<lambda>url. Inr ''Remote Title''),
      now = demo_clock,
      can_open = (\<lambda>path. True),
      path_join = (\<lambda>a b. a @ ''/'' @ b),
      ydl_download = (\<lambda>opts url. \<lparr>events = [Downloading '' 50.0%'', Finished], raised = None\<rparr>)\<rparr>"

definition demo_ui :: ui where
  "demo_ui =
     \<lparr>url_entry = ''https://www.youtube.com/watch?v=abc123'',
      title_var = ''  MyClip '',
      download_path = ''/tmp'',
      sub_check = True,
      video_check = False,
      audio_check = False,
      srt_check = False,
      resolution_var = ''1080p'',
      language_var = AllLanguages\<rparr>"

definition init_app :: app where
  "init_app =
     \<lparr>status_log = [], caption_progress = 0, video_progress = 0, audio_progress = 0,
      files = [], calls = []\<rparr>"

section \<open>Properties of extract_percent\<close>

lemma m_not_param: "\<not> is_param (CHR ''m'')"
  by (simp add: is_param_def is_digit_def)

lemma digit_not_ESC: "is_digit c \<Longrightarrow> c \<noteq> ESC"
  by (auto simp: is_digit_def ESC_def)

lemma dot_not_digit: "\<not> is_digit (CHR ''.'')"
  by (simp add: is_digit_def)

lemma match_ansi_render:
  "list_all is_param ps \<Longrightarrow> match_ansi (ESC # CHR ''['' # ps @ CHR ''m'' # rest) = Some rest"
  by (simp add: dropWhile_append3 m_not_param list_all_iff)

lemma match_ansi_not_ESC: "c \<noteq> ESC \<Longrightarrow> match_ansi (c # cs) = None"
  by (cases cs) simp_all

lemma strip_ansi_plain: "ESC \<notin> set s \<Longrightarrow> strip_ansi (s @ t) = s @ strip_ansi t"
  by (induction s) (auto simp: match_ansi_not_ESC simp del: match_ansi.simps)

lemma strip_ansi_sgr:
  "list_all is_param ps \<Longrightarrow>
   strip_ansi (ESC # CHR ''['' # ps @ CHR ''m'' # rest) = strip_ansi rest"
  by (simp add: match_ansi_render del: match_ansi.simps)

lemma strip_noise:
  "list_all noise ps \<Longrightarrow>
   strip_non_numeric (strip_ansi (render_all ps @ t)) = strip_non_numeric (strip_ansi t)"
proof (induction ps)
  case Nil
  then show ?case by (simp add: render_all_def)
next
  case (Cons p ps)
  show ?case
  proof (cases p)
    case (Sgr x)
    with Cons show ?thesis
      using strip_ansi_sgr [of x "render_all ps @ t"] by (simp add: render_all_def)
  next
    case (Plain c)
    with Cons show ?thesis
      by (simp add: match_ansi_not_ESC strip_non_numeric_def render_all_def)
  qed
qed

lemma strip_noise_end: "list_all noise ps \<Longrightarrow> strip_non_numeric (strip_ansi (render_all ps)) = []"
  using strip_noise [of ps "[]"] by (simp add: strip_non_numeric_def)

lemma set_strip_ansi: "set (strip_ansi s) \<subseteq> set s"
proof (induction s rule: strip_ansi.induct)
  case 1
  then show ?case by simp
next
  case (2 c cs)
  show ?case
  proof (cases "match_ansi (c # cs)")
    case None
    with 2 show ?thesis by auto
  next
    case (Some rest)
    have "set rest \<subseteq> set (c # cs)"
    proof (cases cs)
      case Nil
      with Some show ?thesis by simp
    next
      case (Cons b ds)
      with Some have d: "dropWhile is_param ds = CHR ''m'' # rest"
        by (auto split: if_splits list.splits)
      have "set (dropWhile is_param ds) \<subseteq> set ds"
        by (auto dest: set_dropWhileD)
      with d Cons show ?thesis by auto
    qed
    with 2 Some show ?thesis by auto
  qed
qed

lemma py_float_cases: "py_float s = Inl ValueError \<or> (\<exists>v. py_float s = Inr v \<and> 0 \<le> v)"
  by (auto simp: py_float_def Let_def split: list.splits)

lemma py_float_no_digit: "\<forall>c\<in>set s. \<not> is_digit c \<Longrightarrow> py_float s = Inl ValueError"
  by (cases s) (auto simp: py_float_def Let_def list_all_iff split: list.splits)

lemma dot_not_ESC: "CHR ''.'' \<noteq> ESC"
  by (simp add: ESC_def)
lemma numeric_char_not_ESC: "is_numeric_char c \<Longrightarrow> c \<noteq> ESC"
  using digit_not_ESC [of c] dot_not_ESC by (auto simp: is_numeric_char_def)
lemma numeric_not_ESC: "list_all is_numeric_char num \<Longrightarrow> ESC \<notin> set num"
  using numeric_char_not_ESC by (auto simp: list_all_iff)
lemma strip_non_numeric_id: "list_all is_numeric_char num \<Longrightarrow> strip_non_numeric num = num"
  unfolding strip_non_numeric_def by (simp add: list_all_iff)
lemma strip_non_numeric_append:
  "strip_non_numeric (xs @ ys) = strip_non_numeric xs @ strip_non_numeric ys"
  by (simp add: strip_non_numeric_def)
lemma strip_number:
  assumes "list_all noise pre" "list_all noise post" "list_all is_numeric_char num"
  shows "strip_non_numeric (strip_ansi (render_all pre @ num @ render_all post)) = num"
proof -
  have a: "strip_ansi (num @ render_all post) = num @ strip_ansi (render_all post)"
    using numeric_not_ESC [OF assms(3)] by (rule strip_ansi_plain)
  have "strip_non_numeric (strip_ansi (render_all pre @ num @ render_all post)) =
        strip_non_numeric (strip_ansi (num @ render_all post))"
    by (rule strip_noise [OF assms(1)])
  also have "\<dots> = strip_non_numeric num @ strip_non_numeric (strip_ansi (render_all post))"
    by (simp only: a strip_non_numeric_append)
  also have "\<dots> = num"
    by (simp only: strip_non_numeric_id [OF assms(3)] strip_noise_end [OF assms(2)] append_Nil2)
  finally show ?thesis .
qed
lemma py_float_decimal:
  assumes "list_all is_digit ip" "list_all is_digit fp" "ip \<noteq> [] \<or> fp \<noteq> []"
  shows "py_float (ip @ ''.'' @ fp) =
           Inr (of_nat (digits_value ip) + of_nat (digits_value fp) / 10 ^ length fp)"
proof -
  have t: "takeWhile is_digit (ip @ CHR ''.'' # fp) = ip"
    using assms(1) by (simp add: takeWhile_append2 list_all_iff dot_not_digit)
  have d: "dropWhile is_digit (ip @ CHR ''.'' # fp) = CHR ''.'' # fp"
    using assms(1) by (simp add: dropWhile_append2 list_all_iff dot_not_digit)
  have "py_float (ip @ CHR ''.'' # fp) =
           Inr (of_nat (digits_value ip) + of_nat (digits_value fp) / 10 ^ length fp)"
    unfolding py_float_def Let_def t d using assms(2,3) by simp
  then show ?thesis by simp
qed

lemma py_float_integer:
  assumes "list_all is_digit ip" "ip \<noteq> []"
  shows "py_float ip = Inr (of_nat (digits_value ip))"
proof -
  have t: "takeWhile is_digit ip = ip" and d: "dropWhile is_digit ip = []"
    using assms(1) by (simp_all add: list_all_iff)
  show ?thesis
    unfolding py_float_def Let_def t d using assms(2) by simp
qed

text \<open>
  Claim C4. A progress string made of colour sequences, blanks, a percent sign and
  one decimal number gives exactly the value of that number: the colour sequences are
  deleted first, then everything that is neither digit nor dot, and the rest is parsed.
  The number may have a fractional part (first conjunct) or not (second). When the
  scrubbed text does not parse, in particular when the input has no digit, the result
  is \<open>0\<close>.
\<close>

theorem extract_percent_numeric:
  "(list_all noise pre \<and> list_all noise post \<and> list_all is_digit ip \<and> list_all is_digit fp \<and>
      (ip \<noteq> [] \<or> fp \<noteq> []) \<longrightarrow>
      extract_percent (render_all pre @ ip @ ''.'' @ fp @ render_all post) =
        Inr (of_nat (digits_value ip) + of_nat (digits_value fp) / 10 ^ length fp)) \<and>
   (list_all noise pre \<and> list_all noise post \<and> list_all is_digit ip \<and> ip \<noteq> [] \<longrightarrow>
      extract_percent (render_all pre @ ip @ render_all post) = Inr (of_nat (digits_value ip))) \<and>
   (py_float (strip_non_numeric (strip_ansi s)) = Inl ValueError \<longrightarrow> extract_percent s = Inr 0) \<and>
   ((\<forall>c\<in>set s. \<not> is_digit c) \<longrightarrow> extract_percent s = Inr 0)"
proof (intro conjI impI)
  assume a: "list_all noise pre \<and> list_all noise post \<and> list_all is_digit ip \<and>
    list_all is_digit fp \<and> (ip \<noteq> [] \<or> fp \<noteq> [])"
  then have "list_all is_numeric_char (ip @ ''.'' @ fp)"
    by (auto simp: list_all_iff is_numeric_char_def)
  with a have "strip_non_numeric (strip_ansi (render_all pre @ (ip @ ''.'' @ fp) @ render_all post))
      = ip @ ''.'' @ fp"
    by (intro strip_number) simp_all
  with a show "extract_percent (render_all pre @ ip @ ''.'' @ fp @ render_all post) =
        Inr (of_nat (digits_value ip) + of_nat (digits_value fp) / 10 ^ length fp)"
    using py_float_decimal [of ip fp] by (simp add: extract_percent_def)
next
  assume a: "list_all noise pre \<and> list_all noise post \<and> list_all is_digit ip \<and> ip \<noteq> []"
  then have "list_all is_numeric_char ip"
    by (auto simp: list_all_iff is_numeric_char_def)
  with a have "strip_non_numeric (strip_ansi (render_all pre @ ip @ render_all post)) = ip"
    by (intro strip_number) simp_all
  with a show "extract_percent (render_all pre @ ip @ render_all post) = Inr (of_nat (digits_value ip))"
    using py_float_integer [of ip] by (simp add: extract_percent_def)
next
  assume "py_float (strip_non_numeric (strip_ansi s)) = Inl ValueError"
  then show "extract_percent s = Inr 0"
    by (simp add: extract_percent_def)
next
  assume a: "\<forall>c\<in>set s. \<not> is_digit c"
  have "set (strip_non_numeric (strip_ansi s)) \<subseteq> set s"
    using set_strip_ansi [of s] by (auto simp: strip_non_numeric_def)
  with a have "py_float (strip_non_numeric (strip_ansi s)) = Inl ValueError"
    by (intro py_float_no_digit) auto
  then show "extract_percent s = Inr 0"
    by (simp add: extract_percent_def)
qed

theorem extract_percent_numeric_witness:
  "extract_percent (ESC # ''[0;32m 37.5%'' @ ESC # ''[0m'') = Inr (75 / 2) \<and>
   extract_percent (ESC # ''[1m100%'') = Inr 100 \<and>
   extract_percent ''...'' = Inr 0 \<and>
   extract_percent ''N/A'' = Inr 0"
proof -
  have n: "list_all noise [Sgr ''0;32'', Plain (CHR '' '')]" "list_all noise [Plain (CHR ''%''), Sgr ''0'']"
    "list_all noise [Sgr ''1'']" "list_all noise [Plain (CHR ''%'')]"
    by (simp_all add: is_param_def is_digit_def is_numeric_char_def ESC_def)
  have d: "list_all is_digit ''37''" "list_all is_digit ''5''" "list_all is_digit ''100''"
    by (simp_all add: is_digit_def)
  have v: "digits_value ''37'' = 37" "digits_value ''5'' = 5" "digits_value ''100'' = 100"
    by (simp_all add: digits_value_def digit_val_def)
  have f: "py_float (strip_non_numeric (strip_ansi ''...'')) = Inl ValueError"
    by (simp add: strip_non_numeric_def is_numeric_char_def is_digit_def py_float_def ESC_def)
  have nd: "\<forall>c\<in>set ''N/A''. \<not> is_digit c"
    by (simp add: is_digit_def)
  from extract_percent_numeric [of "[Sgr ''0;32'', Plain (CHR '' '')]" "[Plain (CHR ''%''), Sgr ''0'']" "''37''" "''5''" "''...''"]
    extract_percent_numeric [of "[Sgr ''1'']" "[Plain (CHR ''%'')]" "''100''" "[]" "''N/A''"]
    n d v f nd
  show ?thesis by (simp add: render_all_def)
qed

text \<open>
  Claim C9. \<open>extract_percent\<close> returns a value on every input, never an exception,
  and the value is not negative: a minus sign does not survive the scrubbing.
\<close>

theorem extract_percent_total:
  "\<exists>v. extract_percent s = Inr v \<and> 0 \<le> v"
  using py_float_cases [of "strip_non_numeric (strip_ansi s)"]
  by (auto simp: extract_percent_def)

theorem extract_percent_total_witness:
  "\<exists>v. extract_percent (''-12.5%'') = Inr v \<and> 0 \<le> v"
  using extract_percent_total [of "''-12.5%''"] by simp

section \<open>Properties of format_time\<close>




lemma length_str_nat_1: "n < 10 \<Longrightarrow> length (str_nat n) = 1"
  by (simp add: str_nat.simps)

lemma length_str_nat_2: "n < 100 \<Longrightarrow> length (str_nat n) \<le> 2"
  by (subst str_nat.simps) (simp add: length_str_nat_1)





lemma digit_char_0: "digit_char 0 = CHR ''0''"
  by code_simp

lemma zfill_2_digits:
  assumes "n < 100"
  shows "zfill 2 (str_nat n) = [digit_char (n div 10), digit_char (n mod 10)]"
proof (cases "n < 10")
  case True
  then show ?thesis
    by (simp add: str_nat.simps [of n] zfill_def digit_char_0)
next
  case False
  with assms have "n div 10 < 10" by simp
  then have "str_nat (n div 10) = [digit_char (n div 10)]"
    by (simp add: str_nat.simps [of "n div 10"])
  with False show ?thesis
    by (simp add: str_nat.simps [of n] zfill_def)
qed

lemma zfill_3_digits:
  assumes "n < 1000"
  shows "zfill 3 (str_nat n) =
    [digit_char (n div 100), digit_char (n div 10 mod 10), digit_char (n mod 10)]"
proof (cases "n < 10")
  case True
  then have "str_nat n = [digit_char n]"
    by (simp add: str_nat.simps [of n])
  moreover have "replicate 2 (CHR ''0'') = ''00''"
    by (simp add: eval_nat_numeral)
  ultimately show ?thesis
    using True by (simp add: zfill_def digit_char_0)
next
  case False
  define m where "m = n div 10"
  from assms have m: "m < 100" by (simp add: m_def)
  have "n div 100 = n div (10 * 10)" by simp
  also have "\<dots> = m div 10" unfolding m_def by (rule div_mult2_eq)
  finally have h: "n div 100 = m div 10" .
  have s: "str_nat n = str_nat m @ [digit_char (n mod 10)]"
    using False by (simp add: str_nat.simps [of n] m_def)
  have l: "length (str_nat m) \<le> 2"
    using m by (rule length_str_nat_2)
  then have "3 - length (str_nat n) = 2 - length (str_nat m)"
    unfolding s by simp
  then have "zfill 3 (str_nat n) = zfill 2 (str_nat m) @ [digit_char (n mod 10)]"
    unfolding zfill_def s by simp
  also have "zfill 2 (str_nat m) = [digit_char (m div 10), digit_char (m mod 10)]"
    using m by (rule zfill_2_digits)
  finally show ?thesis
    unfolding h m_def by simp
qed





section \<open>Properties of the SRT serialization\<close>






section \<open>Properties of get_safe_filename\<close>

lemma py_strip_split:
  "\<exists>a b. t = a @ py_strip t @ b \<and> list_all is_space a \<and> list_all is_space b"
proof -
  let ?d = "dropWhile is_space t"
  have 1: "t = takeWhile is_space t @ ?d" by simp
  have "rev (takeWhile is_space (rev ?d) @ dropWhile is_space (rev ?d)) = ?d"
    by (simp only: takeWhile_dropWhile_id rev_rev_ident)
  then have 2: "?d = py_strip t @ rev (takeWhile is_space (rev ?d))"
    by (simp only: rev_append py_strip_def)
  have 3: "list_all is_space (takeWhile is_space t)"
    by (auto simp: list_all_iff dest: set_takeWhileD)
  have 4: "list_all is_space (rev (takeWhile is_space (rev ?d)))"
    by (auto simp: list_all_iff dest: set_takeWhileD)
  from 1 2 have "t = takeWhile is_space t @ py_strip t @ rev (takeWhile is_space (rev ?d))"
    by metis
  with 3 4 show ?thesis by blast
qed

lemma strftime_digits:
  assumes "month t < 100" "day t < 100" "hour t < 100" "minute t < 100"
  shows "strftime t =
    [digit_char (year t mod 100 div 10), digit_char (year t mod 10),
     digit_char (month t div 10), digit_char (month t mod 10),
     digit_char (day t div 10), digit_char (day t mod 10),
     CHR ''_'',
     digit_char (hour t div 10), digit_char (hour t mod 10),
     digit_char (minute t div 10), digit_char (minute t mod 10)]"
proof -
  have y: "year t mod 100 < 100" by simp
  have "year t mod 100 mod 10 = year t mod 10"
    by (simp add: mod_mod_cancel)
  with zfill_2_digits [OF y] zfill_2_digits [OF assms(1)] zfill_2_digits [OF assms(2)]
    zfill_2_digits [OF assms(3)] zfill_2_digits [OF assms(4)]
  show ?thesis
    by (simp add: strftime_def)
qed

lemma last_dropWhile: "dropWhile P xs \<noteq> [] \<Longrightarrow> last (dropWhile P xs) = last xs"
  by (induction xs) auto

lemma py_strip_ends:
  assumes "py_strip t \<noteq> []"
  shows "\<not> is_space (hd (py_strip t))" and "\<not> is_space (last (py_strip t))"
proof -
  let ?d = "dropWhile is_space t"
  let ?r = "dropWhile is_space (rev ?d)"
  from assms have r: "?r \<noteq> []" by (simp add: py_strip_def)
  have d: "?d \<noteq> []"
  proof
    assume e: "?d = []"
    have "?r = dropWhile is_space (rev [])" by (simp only: e)
    with r show False by simp
  qed
  have "hd (py_strip t) = last ?r"
    using r by (simp add: py_strip_def hd_rev)
  also have "\<dots> = last (rev ?d)" using r by (rule last_dropWhile)
  also have "\<dots> = hd ?d" using d by (simp add: last_rev)
  finally show "\<not> is_space (hd (py_strip t))"
    using d hd_dropWhile [of is_space t] by simp
  have "last (py_strip t) = hd ?r"
    using r by (simp add: py_strip_def last_rev)
  then show "\<not> is_space (last (py_strip t))"
    using r hd_dropWhile [of is_space "rev ?d"] by simp
qed

text \<open>
  Claim C8. When the trimmed user title is not empty, the resolver returns it and
  leaves the state alone, so no metadata lookup is made and its outcome cannot matter.
  Otherwise it returns the remote title when the lookup succeeds. When the lookup fails it
  returns \<open>download_\<close> followed by eleven characters read off the wall clock: the
  tens and units digit of the year within its century, of the month and of the day, an
  underscore, and the tens and units digit of the hour and of the minute (the character
  with code \<open>48 + d\<close> is the digit \<open>d\<close>). The trimmed title is the entered title
  without its leading and trailing white space: what is cut off at either end is white
  space, and what remains neither begins nor ends with white space.
\<close>

theorem get_safe_filename_priority:
  "(py_strip (title_var u) \<noteq> [] \<longrightarrow>
      get_safe_filename env u st url video_id = (st, py_strip (title_var u))) \<and>
   (py_strip (title_var u) = [] \<longrightarrow>
      (\<forall>title. youtube_title env url = Inr title \<longrightarrow>
         snd (get_safe_filename env u st url video_id) = title) \<and>
      (\<forall>e. youtube_title env url = Inl e \<and>
           month (now env) < 100 \<and> day (now env) < 100 \<and> hour (now env) < 100 \<and>
           minute (now env) < 100 \<longrightarrow>
         snd (get_safe_filename env u st url video_id) =
           ''download_'' @
           [char_of (48 + year (now env) mod 100 div 10), char_of (48 + year (now env) mod 10),
            char_of (48 + month (now env) div 10), char_of (48 + month (now env) mod 10),
            char_of (48 + day (now env) div 10), char_of (48 + day (now env) mod 10),
            CHR ''_'',
            char_of (48 + hour (now env) div 10), char_of (48 + hour (now env) mod 10),
            char_of (48 + minute (now env) div 10), char_of (48 + minute (now env) mod 10)])) \<and>
   (\<exists>a b. title_var u = a @ py_strip (title_var u) @ b \<and>
      list_all is_space a \<and> list_all is_space b \<and>
      (py_strip (title_var u) \<noteq> [] \<longrightarrow>
         \<not> is_space (hd (py_strip (title_var u))) \<and> \<not> is_space (last (py_strip (title_var u)))))"
proof (intro conjI impI allI)
  assume "py_strip (title_var u) \<noteq> []"
  then show "get_safe_filename env u st url video_id = (st, py_strip (title_var u))"
    by (simp add: get_safe_filename_def)
next
  fix title
  assume "py_strip (title_var u) = []" "youtube_title env url = Inr title"
  then show "snd (get_safe_filename env u st url video_id) = title"
    by (simp add: get_safe_filename_def Let_def)
next
  fix e
  assume s: "py_strip (title_var u) = []"
    and h: "youtube_title env url = Inl e \<and>
           month (now env) < 100 \<and> day (now env) < 100 \<and> hour (now env) < 100 \<and>
           minute (now env) < 100"
  from h have t: "strftime (now env) =
    [digit_char (year (now env) mod 100 div 10), digit_char (year (now env) mod 10),
     digit_char (month (now env) div 10), digit_char (month (now env) mod 10),
     digit_char (day (now env) div 10), digit_char (day (now env) mod 10),
     CHR ''_'',
     digit_char (hour (now env) div 10), digit_char (hour (now env) mod 10),
     digit_char (minute (now env) div 10), digit_char (minute (now env) mod 10)]"
    by (intro strftime_digits) simp_all
  from s h have g: "snd (get_safe_filename env u st url video_id) =
      ''download_'' @ strftime (now env)"
    by (simp add: get_safe_filename_def Let_def)
  show "snd (get_safe_filename env u st url video_id) =
           ''download_'' @
           [char_of (48 + year (now env) mod 100 div 10), char_of (48 + year (now env) mod 10),
            char_of (48 + month (now env) div 10), char_of (48 + month (now env) mod 10),
            char_of (48 + day (now env) div 10), char_of (48 + day (now env) mod 10),
            CHR ''_'',
            char_of (48 + hour (now env) div 10), char_of (48 + hour (now env) mod 10),
            char_of (48 + minute (now env) div 10), char_of (48 + minute (now env) mod 10)]"
    unfolding g t digit_char_def by (rule refl)
next
  show "\<exists>a b. title_var u = a @ py_strip (title_var u) @ b \<and>
      list_all is_space a \<and> list_all is_space b \<and>
      (py_strip (title_var u) \<noteq> [] \<longrightarrow>
         \<not> is_space (hd (py_strip (title_var u))) \<and> \<not> is_space (last (py_strip (title_var u))))"
  proof -
    from py_strip_split [of "title_var u"] obtain a b where
      "title_var u = a @ py_strip (title_var u) @ b" "list_all is_space a" "list_all is_space b"
      by blast
    with py_strip_ends [of "title_var u"] show ?thesis
      by (intro exI [of _ a] exI [of _ b]) simp
  qed
qed

theorem get_safe_filename_priority_witness:
  "snd (get_safe_filename demo_env demo_ui init_app (url_entry demo_ui) ''abc123'') = ''MyClip'' \<and>
   snd (get_safe_filename english_env demo_ui init_app (url_entry demo_ui) ''abc123'') = ''MyClip'' \<and>
   snd (get_safe_filename english_env (demo_ui\<lparr>title_var := ''  ''\<rparr>) init_app
          (url_entry demo_ui) ''abc123'') = ''Remote Title'' \<and>
   snd (get_safe_filename demo_env (demo_ui\<lparr>title_var := ''  ''\<rparr>) init_app
          (url_entry demo_ui) ''abc123'') = ''download_250220_0905''"
proof -
  have s1: "py_strip (title_var demo_ui) = ''MyClip''"
    by code_simp
  have s2: "py_strip (title_var (demo_ui\<lparr>title_var := ''  ''\<rparr>)) = []"
    by code_simp
  have y1: "youtube_title english_env (url_entry demo_ui) = Inr ''Remote Title''"
    by (simp add: english_env_def)
  have y2: "youtube_title demo_env (url_entry demo_ui) = Inl (LibraryError ''unavailable'') \<and>
      month (now demo_env) < 100 \<and> day (now demo_env) < 100 \<and> hour (now demo_env) < 100 \<and>
      minute (now demo_env) < 100"
    by (simp add: demo_env_def demo_clock_def)
  have c: "''download_'' @
      [char_of (48 + year (now demo_env) mod 100 div 10), char_of (48 + year (now demo_env) mod 10),
       char_of (48 + month (now demo_env) div 10), char_of (48 + month (now demo_env) mod 10),
       char_of (48 + day (now demo_env) div 10), char_of (48 + day (now demo_env) mod 10),
       CHR ''_'',
       char_of (48 + hour (now demo_env) div 10), char_of (48 + hour (now demo_env) mod 10),
       char_of (48 + minute (now demo_env) div 10), char_of (48 + minute (now demo_env) mod 10)] =
      ''download_250220_0905''"
    by code_simp
  note a = get_safe_filename_priority [of demo_ui demo_env init_app "url_entry demo_ui" "''abc123''"]
  note b = get_safe_filename_priority [of demo_ui english_env init_app "url_entry demo_ui" "''abc123''"]
  note d = get_safe_filename_priority [of "demo_ui\<lparr>title_var := ''  ''\<rparr>" english_env init_app
      "url_entry demo_ui" "''abc123''"]
  note e = get_safe_filename_priority [of "demo_ui\<lparr>title_var := ''  ''\<rparr>" demo_env init_app
      "url_entry demo_ui" "''abc123''"]
  have 1: "snd (get_safe_filename demo_env demo_ui init_app (url_entry demo_ui) ''abc123'') = ''MyClip''"
    using a s1 by simp
  have 2: "snd (get_safe_filename english_env demo_ui init_app (url_entry demo_ui) ''abc123'') = ''MyClip''"
    using b s1 by simp
  have 3: "snd (get_safe_filename english_env (demo_ui\<lparr>title_var := ''  ''\<rparr>) init_app
          (url_entry demo_ui) ''abc123'') = ''Remote Title''"
    using d s2 y1 by blast
  from e s2 y2 have "snd (get_safe_filename demo_env (demo_ui\<lparr>title_var := ''  ''\<rparr>) init_app
          (url_entry demo_ui) ''abc123'') =
      ''download_'' @
      [char_of (48 + year (now demo_env) mod 100 div 10), char_of (48 + year (now demo_env) mod 10),
       char_of (48 + month (now demo_env) div 10), char_of (48 + month (now demo_env) mod 10),
       char_of (48 + day (now demo_env) div 10), char_of (48 + day (now demo_env) mod 10),
       CHR ''_'',
       char_of (48 + hour (now demo_env) div 10), char_of (48 + hour (now demo_env) mod 10),
       char_of (48 + minute (now demo_env) div 10), char_of (48 + minute (now demo_env) mod 10)]"
    by blast
  then have 4: "snd (get_safe_filename demo_env (demo_ui\<lparr>title_var := ''  ''\<rparr>) init_app
          (url_entry demo_ui) ''abc123'') = ''download_250220_0905''"
    by (simp only: c)
  from 1 2 3 4 show ?thesis by blast
qed

section \<open>Properties of the session controller\<close>

text \<open>
  Claim C7. With a URL entered and none of the three options selected, both versions
  of \<open>start_download\<close> set the status to the select-an-option message and do nothing
  else: no file is written, no progress value changes, and neither the transcript API nor
  the downloader is called. The only collaborator call that can happen is the metadata
  lookup of the file name resolver, when no title was entered.
\<close>

theorem no_options_guard:
  "url_entry u \<noteq> [] \<and> \<not> sub_check u \<and> \<not> video_check u \<and> \<not> audio_check u \<longrightarrow>
   (\<forall>st' \<in> {start_download_v100 env u st, start_download_v101 env u st}.
      status_log st' = status_log st @ [SelectOptions] \<and>
      files st' = files st \<and>
      caption_progress st' = caption_progress st \<and>
      video_progress st' = video_progress st \<and>
      audio_progress st' = audio_progress st \<and>
      calls st' = calls st @
        (if py_strip (title_var u) = [] then [MetadataLookup (url_entry u)] else []))"
  by (auto simp: start_download_v100_def start_download_v101_def get_safe_filename_def
      options_selected_def update_status_def log_call_def Let_def split: sum.splits)

theorem no_options_guard_witness:
  "status_log (start_download_v100 demo_env (demo_ui\<lparr>sub_check := False\<rparr>) init_app) = [SelectOptions] \<and>
   files (start_download_v100 demo_env (demo_ui\<lparr>sub_check := False\<rparr>) init_app) = [] \<and>
   status_log (start_download_v101 demo_env (demo_ui\<lparr>sub_check := False\<rparr>) init_app) = [SelectOptions] \<and>
   files (start_download_v101 demo_env (demo_ui\<lparr>sub_check := False\<rparr>) init_app) = [] \<and>
   calls (start_download_v101 demo_env (demo_ui\<lparr>sub_check := False\<rparr>) init_app) = []"
proof -
  let ?u = "demo_ui\<lparr>sub_check := False\<rparr>"
  have h: "url_entry ?u \<noteq> [] \<and> \<not> sub_check ?u \<and> \<not> video_check ?u \<and> \<not> audio_check ?u"
    by (simp add: demo_ui_def)
  have s: "py_strip (title_var ?u) \<noteq> []"
    by code_simp
  have i: "status_log init_app = []" "files init_app = []" "calls init_app = []"
    by (simp_all add: init_app_def)
  from no_options_guard [of ?u demo_env init_app] h s i show ?thesis
    by simp
qed

section \<open>Properties of download_caption, v1.0.0\<close>

lemma select_transcript_found:
  "find_transcript p [''ko'', ''en'', ''ja''] = Inr t \<Longrightarrow> select_transcript p = Inr t"
  by (simp add: select_transcript_def)

lemma select_transcript_generated:
  "find_transcript p [''ko'', ''en'', ''ja''] = Inl NoTranscriptFound \<Longrightarrow>
   find_generated_transcript p [''ja'', ''en''] = Inr t \<Longrightarrow> select_transcript p = Inr t"
  by (simp add: select_transcript_def)

lemma select_transcript_first:
  "find_transcript p [''ko'', ''en'', ''ja''] = Inl NoTranscriptFound \<Longrightarrow>
   find_generated_transcript p [''ja'', ''en''] = Inl e \<Longrightarrow> iter_tracks p = t # ts \<Longrightarrow>
   select_transcript p = Inr t"
  by (simp add: select_transcript_def)










section \<open>Properties of download_caption, v1.0.1\<close>

text \<open>
  Each inner block either adds one file and one label, or leaves files and labels as they
  were; the blocks never remove anything.
\<close>

lemma fetch_and_save_effect:
  "fetch_and_save env st p found fp is_srt suffix = Inr st' \<Longrightarrow>
   \<exists>f. st' = st\<lparr>files := files st @ [f]\<rparr>"
  by (auto simp: fetch_and_save_def save_caption_to_file_def Let_def
      split: sum.splits if_splits)

lemma korean_block_effect:
  assumes "korean_block env p lang fp is_srt (st, ds) = (st', ds')"
  shows "(\<exists>f. st' = st\<lparr>files := files st @ [f]\<rparr> \<and> ds' = ds @ [KoreanSub] \<and> lang \<noteq> English) \<or>
         (st' = update_status st NoKoreanSubtitle \<and> ds' = ds \<and> lang = Korean) \<or>
         (st' = st \<and> ds' = ds \<and> lang \<noteq> Korean)"
proof (cases "fetch_and_save env st p (find_transcript p [''ko'']) fp is_srt ''_kr''")
  case (Inl e)
  with assms show ?thesis
    by (cases lang) (auto simp: korean_block_def)
next
  case (Inr s2)
  then obtain f where f: "s2 = st\<lparr>files := files st @ [f]\<rparr>"
    using fetch_and_save_effect by blast
  from assms Inr have "(st' = s2 \<and> ds' = ds @ [KoreanSub] \<and> lang \<noteq> English) \<or>
      (st' = st \<and> ds' = ds \<and> lang \<noteq> Korean)"
    by (cases lang) (auto simp: korean_block_def)
  with f show ?thesis by blast
qed

lemma english_block_effect:
  assumes "english_block env p lang fp is_srt (st, ds) = (st', ds')"
  shows "(\<exists>f l. st' = st\<lparr>files := files st @ [f]\<rparr> \<and> ds' = ds @ [l] \<and>
            (l = EnglishSub \<or> l = EnglishAutoSub) \<and> lang \<noteq> Korean) \<or>
         (st' = update_status st NoEnglishSubtitle \<and> ds' = ds \<and> lang = English) \<or>
         (st' = st \<and> ds' = ds \<and> lang \<noteq> English)"
proof (cases "fetch_and_save env st p (find_transcript p [''en'']) fp is_srt ''_en''")
  case (Inr s2)
  then obtain f where f: "s2 = st\<lparr>files := files st @ [f]\<rparr>"
    using fetch_and_save_effect by blast
  from assms Inr have "(st' = s2 \<and> ds' = ds @ [EnglishSub] \<and> lang \<noteq> Korean) \<or>
      (st' = st \<and> ds' = ds \<and> lang \<noteq> English)"
    by (cases lang) (auto simp: english_block_def)
  with f show ?thesis by blast
next
  case (Inl e)
  note exact = this
  show ?thesis
  proof (cases "fetch_and_save env st p (find_generated_transcript p [''en'']) fp is_srt ''_auto_en''")
    case (Inr s2)
    then obtain f where f: "s2 = st\<lparr>files := files st @ [f]\<rparr>"
      using fetch_and_save_effect by blast
    from assms exact Inr have "(st' = s2 \<and> ds' = ds @ [EnglishAutoSub] \<and> lang \<noteq> Korean) \<or>
        (st' = st \<and> ds' = ds \<and> lang \<noteq> English)"
      by (cases lang) (auto simp: english_block_def)
    with f show ?thesis by blast
  next
    case (Inl e2)
    with assms exact show ?thesis
      by (cases lang) (auto simp: english_block_def)
  qed
qed

lemma caption_result_done:
  "de \<noteq> [] \<Longrightarrow> caption_result lang (se, de) =
     (se\<lparr>status_log := status_log se @ [CaptionDone de], caption_progress := 100\<rparr>, True)"
proof -
  assume d: "de \<noteq> []"
  have "length de = 1 \<Longrightarrow> [hd de] = de"
    by (cases de) simp_all
  with d show ?thesis
    by (simp add: caption_result_def update_status_def)
qed

lemma caption_result_none:
  "caption_result lang (se, []) =
     (se\<lparr>status_log := status_log se @ (if lang = AllLanguages then [NoSubtitleFound] else []),
         caption_progress := 0\<rparr>, False)"
  by (simp add: caption_result_def update_status_def)

lemma download_caption_v101_unfold:
  "list_transcripts env video_id = Inr p \<Longrightarrow>
   download_caption_v101 env u st video_id url safe_title is_srt =
     caption_result (language_var u)
       (english_block env p (language_var u) (path_join env (download_path u) safe_title) is_srt
         (korean_block env p (language_var u) (path_join env (download_path u) safe_title) is_srt
           (log_call (update_status st CaptionDownloading) (ListTranscripts video_id), [])))"
  by (simp add: download_caption_v101_def Let_def)

lemma blocks_effect:
  assumes K: "korean_block env p lang fp is_srt (st1, []) = (sk, dk)"
    and E: "english_block env p lang fp is_srt (sk, dk) = (se, de)"
  shows "\<exists>ms fs. se = st1\<lparr>status_log := status_log st1 @ ms, files := files st1 @ fs\<rparr> \<and>
      length fs = length de \<and>
      ms = (if de \<noteq> [] then []
            else case lang of Korean \<Rightarrow> [NoKoreanSubtitle] | English \<Rightarrow> [NoEnglishSubtitle]
                 | AllLanguages \<Rightarrow> []) \<and>
      (KoreanSub \<in> set de \<longrightarrow> lang \<noteq> English) \<and>
      (EnglishSub \<in> set de \<or> EnglishAutoSub \<in> set de \<longrightarrow> lang \<noteq> Korean)"
proof -
  from korean_block_effect [OF K]
  consider (k1) f where "sk = st1\<lparr>files := files st1 @ [f]\<rparr>" "dk = [KoreanSub]" "lang \<noteq> English"
    | (k2) "sk = update_status st1 NoKoreanSubtitle" "dk = []" "lang = Korean"
    | (k3) "sk = st1" "dk = []" "lang \<noteq> Korean"
    by auto
  then show ?thesis
  proof cases
    case k1
    from english_block_effect [OF E] k1(3)
    consider (e1) g l where "se = sk\<lparr>files := files sk @ [g]\<rparr>" "de = dk @ [l]"
        "l = EnglishSub \<or> l = EnglishAutoSub" "lang \<noteq> Korean"
      | (e3) "se = sk" "de = dk"
      by auto
    then show ?thesis
    proof cases
      case e1
      with k1 have "lang = AllLanguages" by (cases lang) simp_all
      with k1 e1 show ?thesis
        by (intro exI [of _ "[]"] exI [of _ "[f, g]"]) auto
    next
      case e3
      with k1 show ?thesis
        by (intro exI [of _ "[]"] exI [of _ "[f]"]) simp
    qed
  next
    case k2
    from english_block_effect [OF E] k2(3)
    have "se = sk" "de = dk" by auto
    with k2 show ?thesis
      by (intro exI [of _ "[NoKoreanSubtitle]"] exI [of _ "[]"]) (simp add: update_status_def)
  next
    case k3
    from english_block_effect [OF E]
    consider (e1) g l where "se = sk\<lparr>files := files sk @ [g]\<rparr>" "de = dk @ [l]"
        "l = EnglishSub \<or> l = EnglishAutoSub" "lang \<noteq> Korean"
      | (e2) "se = update_status sk NoEnglishSubtitle" "de = dk" "lang = English"
      | (e3) "se = sk" "de = dk" "lang \<noteq> English"
      by auto
    then show ?thesis
    proof cases
      case e1
      with k3 show ?thesis
        by (intro exI [of _ "[]"] exI [of _ "[g]"]) auto
    next
      case e2
      with k3 show ?thesis
        by (intro exI [of _ "[NoEnglishSubtitle]"] exI [of _ "[]"]) (simp add: update_status_def)
    next
      case e3
      with k3 have "lang = AllLanguages" by (cases lang) simp_all
      with k3 e3 show ?thesis
        by (intro exI [of _ "[]"] exI [of _ "[]"]) simp
    qed
  qed
qed

lemma download_caption_v101_raised:
  assumes "list_transcripts env video_id = Inl e"
  shows "download_caption_v101 env u st video_id url safe_title is_srt =
    (st\<lparr>status_log := status_log st @ [CaptionDownloading, CaptionFailed e],
        caption_progress := 0,
        calls := calls st @ [ListTranscripts video_id]\<rparr>, False)"
  using assms
  by (simp add: download_caption_v101_def update_status_def log_call_def Let_def)

lemma download_caption_v101_listed:
  assumes l: "list_transcripts env video_id = Inr p"
    and r: "download_caption_v101 env u st video_id url safe_title is_srt = (st', ok)"
  shows "(\<exists>labels fs. ok \<and> labels \<noteq> [] \<and> length fs = length labels \<and>
            (KoreanSub \<in> set labels \<longrightarrow> language_var u \<noteq> English) \<and>
            (EnglishSub \<in> set labels \<or> EnglishAutoSub \<in> set labels \<longrightarrow> language_var u \<noteq> Korean) \<and>
            st' = st\<lparr>status_log := status_log st @ [CaptionDownloading, CaptionDone labels],
                     caption_progress := 100,
                     files := files st @ fs,
                     calls := calls st @ [ListTranscripts video_id]\<rparr>) \<or>
         (\<not> ok \<and>
            st' = st\<lparr>status_log := status_log st @
                       [CaptionDownloading,
                        case language_var u of Korean \<Rightarrow> NoKoreanSubtitle
                        | English \<Rightarrow> NoEnglishSubtitle | AllLanguages \<Rightarrow> NoSubtitleFound],
                     caption_progress := 0,
                     calls := calls st @ [ListTranscripts video_id]\<rparr>)"
proof -
  let ?st1 = "log_call (update_status st CaptionDownloading) (ListTranscripts video_id)"
  let ?fp = "path_join env (download_path u) safe_title"
  let ?lang = "language_var u"
  obtain sk dk where K: "korean_block env p ?lang ?fp is_srt (?st1, []) = (sk, dk)"
    by (cases "korean_block env p ?lang ?fp is_srt (?st1, [])") blast
  obtain se de where E: "english_block env p ?lang ?fp is_srt (sk, dk) = (se, de)"
    by (cases "english_block env p ?lang ?fp is_srt (sk, dk)") blast
  have c: "caption_result ?lang (se, de) = (st', ok)"
    using l K E r by (simp add: download_caption_v101_unfold)
  from blocks_effect [OF K E] obtain ms fs where
    se: "se = ?st1\<lparr>status_log := status_log ?st1 @ ms, files := files ?st1 @ fs\<rparr>"
    and len: "length fs = length de"
    and ms: "ms = (if de \<noteq> [] then []
            else case ?lang of Korean \<Rightarrow> [NoKoreanSubtitle] | English \<Rightarrow> [NoEnglishSubtitle]
                 | AllLanguages \<Rightarrow> [])"
    and ko: "KoreanSub \<in> set de \<longrightarrow> ?lang \<noteq> English"
    and en: "EnglishSub \<in> set de \<or> EnglishAutoSub \<in> set de \<longrightarrow> ?lang \<noteq> Korean"
    by blast
  show ?thesis
  proof (cases "de = []")
    case True
    with c have "(st', ok) =
        (se\<lparr>status_log := status_log se @ (if ?lang = AllLanguages then [NoSubtitleFound] else []),
            caption_progress := 0\<rparr>, False)"
      by (simp add: caption_result_none)
    then have ok: "\<not> ok" and st': "st' =
        se\<lparr>status_log := status_log se @ (if ?lang = AllLanguages then [NoSubtitleFound] else []),
            caption_progress := 0\<rparr>"
      by simp_all
    from True len have fs: "fs = []" by simp
    have "st' = st\<lparr>status_log := status_log st @
                       [CaptionDownloading,
                        case ?lang of Korean \<Rightarrow> NoKoreanSubtitle
                        | English \<Rightarrow> NoEnglishSubtitle | AllLanguages \<Rightarrow> NoSubtitleFound],
                     caption_progress := 0,
                     calls := calls st @ [ListTranscripts video_id]\<rparr>"
      unfolding st' se ms fs using True
      by (cases ?lang) (simp_all add: update_status_def log_call_def)
    with ok show ?thesis by blast
  next
    case False
    with c have "(st', ok) =
        (se\<lparr>status_log := status_log se @ [CaptionDone de], caption_progress := 100\<rparr>, True)"
      by (simp add: caption_result_done)
    then have ok: "ok" and st': "st' =
        se\<lparr>status_log := status_log se @ [CaptionDone de], caption_progress := 100\<rparr>"
      by simp_all
    have "st' = st\<lparr>status_log := status_log st @ [CaptionDownloading, CaptionDone de],
                     caption_progress := 100,
                     files := files st @ fs,
                     calls := calls st @ [ListTranscripts video_id]\<rparr>"
      unfolding st' se ms using False
      by (simp add: update_status_def log_call_def)
    with ok False len ko en show ?thesis by blast
  qed
qed

text \<open>
  Claim C10. \<open>download_caption\<close> of v1.0.1 returns \<open>True\<close> exactly when it has written
  at least one subtitle file: the files after the call are the files before it followed by
  the new ones, one for each label of \<open>downloaded_subtitles\<close>, and the flag is \<open>True\<close> if
  and only if there is a new one. The caption progress is \<open>100\<close> when the flag is
  \<open>True\<close> and \<open>0\<close> when it is \<open>False\<close>, whatever it was before. When
  \<open>list_transcripts\<close> raises, the exception is caught: the flag is \<open>False\<close>, the
  progress is \<open>0\<close> and the status is the failure message with the text of the exception.
\<close>

theorem download_caption_v101_result:
  "download_caption_v101 env u st video_id url safe_title is_srt = (st', ok) \<longrightarrow>
     (\<exists>fs. files st' = files st @ fs \<and> (ok \<longleftrightarrow> fs \<noteq> [])) \<and>
     caption_progress st' = (if ok then 100 else 0) \<and>
     (ok \<longrightarrow> (\<exists>labels. labels \<noteq> [] \<and> last (status_log st') = CaptionDone labels \<and>
              length (files st') = length (files st) + length labels)) \<and>
     (\<forall>e. list_transcripts env video_id = Inl e \<longrightarrow>
        \<not> ok \<and> caption_progress st' = 0 \<and> last (status_log st') = CaptionFailed e)"
proof
  assume r: "download_caption_v101 env u st video_id url safe_title is_srt = (st', ok)"
  show "(\<exists>fs. files st' = files st @ fs \<and> (ok \<longleftrightarrow> fs \<noteq> [])) \<and>
     caption_progress st' = (if ok then 100 else 0) \<and>
     (ok \<longrightarrow> (\<exists>labels. labels \<noteq> [] \<and> last (status_log st') = CaptionDone labels \<and>
              length (files st') = length (files st) + length labels)) \<and>
     (\<forall>e. list_transcripts env video_id = Inl e \<longrightarrow>
        \<not> ok \<and> caption_progress st' = 0 \<and> last (status_log st') = CaptionFailed e)"
  proof (cases "list_transcripts env video_id")
    case (Inl e)
    from download_caption_v101_raised [OF Inl, of u st url safe_title is_srt] r
    have "ok = False" and "st' = st\<lparr>status_log := status_log st @ [CaptionDownloading, CaptionFailed e],
        caption_progress := 0, calls := calls st @ [ListTranscripts video_id]\<rparr>"
      by simp_all
    with Inl show ?thesis by simp
  next
    case (Inr p)
    from download_caption_v101_listed [OF Inr r]
    consider (success) labels fs where "ok" "labels \<noteq> []" "length fs = length labels"
        "st' = st\<lparr>status_log := status_log st @ [CaptionDownloading, CaptionDone labels],
                 caption_progress := 100, files := files st @ fs,
                 calls := calls st @ [ListTranscripts video_id]\<rparr>"
      | (failure) "\<not> ok" "files st' = files st" "caption_progress st' = 0"
      by auto
    then show ?thesis
    proof cases
      case success
      then have "fs \<noteq> []" by auto
      with success Inr show ?thesis by auto
    next
      case failure
      with Inr show ?thesis by simp
    qed
  qed
qed

theorem download_caption_v101_result_witness:
  "snd (download_caption_v101 english_env demo_ui init_app ''abc123'' (url_entry demo_ui) ''MyClip'' False) \<and>
   caption_progress (fst (download_caption_v101 english_env demo_ui init_app ''abc123''
       (url_entry demo_ui) ''MyClip'' False)) = 100 \<and>
   length (files (fst (download_caption_v101 english_env demo_ui init_app ''abc123''
       (url_entry demo_ui) ''MyClip'' False))) = 1 \<and>
   \<not> snd (download_caption_v101 demo_env demo_ui (init_app\<lparr>caption_progress := 50\<rparr>) ''abc123''
       (url_entry demo_ui) ''MyClip'' False) \<and>
   caption_progress (fst (download_caption_v101 demo_env demo_ui (init_app\<lparr>caption_progress := 50\<rparr>)
       ''abc123'' (url_entry demo_ui) ''MyClip'' False)) = 0 \<and>
   files (fst (download_caption_v101 demo_env demo_ui (init_app\<lparr>caption_progress := 50\<rparr>)
       ''abc123'' (url_entry demo_ui) ''MyClip'' False)) = []"
proof -
  let ?a = "download_caption_v101 english_env demo_ui init_app ''abc123'' (url_entry demo_ui)
      ''MyClip'' False"
  let ?b = "download_caption_v101 demo_env demo_ui (init_app\<lparr>caption_progress := 50\<rparr>) ''abc123''
      (url_entry demo_ui) ''MyClip'' False"
  have fa: "files (fst ?a) = [(''/tmp/MyClip_en.txt'', ''Hi'' @ [NL])]"
    by code_simp
  have lb: "list_transcripts demo_env ''abc123'' =
      Inl (LibraryError ''Subtitles are disabled for this video'')"
    by (simp add: demo_env_def)
  have i: "files init_app = []" "files (init_app\<lparr>caption_progress := 50\<rparr>) = []"
    by (simp_all add: init_app_def)
  note a = download_caption_v101_result [of english_env demo_ui init_app "''abc123''"
      "url_entry demo_ui" "''MyClip''" False "fst ?a" "snd ?a", THEN mp, OF prod.collapse [symmetric]]
  note b = download_caption_v101_result [of demo_env demo_ui "init_app\<lparr>caption_progress := 50\<rparr>"
      "''abc123''" "url_entry demo_ui" "''MyClip''" False "fst ?b" "snd ?b", THEN mp,
      OF prod.collapse [symmetric]]
  from a fa i have "snd ?a" by auto
  moreover from a this have "caption_progress (fst ?a) = 100" by simp
  moreover from fa have "length (files (fst ?a)) = 1" by simp
  moreover from b lb have nb: "\<not> snd ?b" by simp
  moreover from b nb have "caption_progress (fst ?b) = 0" by simp
  moreover from b nb i have "files (fst ?b) = []" by auto
  ultimately show ?thesis by blast
qed

lemma download_caption_v101_messages:
  "\<exists>m. status_log (fst (download_caption_v101 env u st video_id url safe_title is_srt)) =
         status_log st @ [CaptionDownloading, m] \<and>
       (m = NoKoreanSubtitle \<longrightarrow> language_var u = Korean) \<and>
       (m = NoEnglishSubtitle \<longrightarrow> language_var u = English) \<and>
       (\<not> snd (download_caption_v101 env u st video_id url safe_title is_srt) \<longrightarrow>
          m = NoKoreanSubtitle \<or> m = NoEnglishSubtitle \<or> m = NoSubtitleFound \<or>
          (\<exists>e. m = CaptionFailed e))"
proof (cases "list_transcripts env video_id")
  case (Inl e)
  show ?thesis
    unfolding download_caption_v101_raised [OF Inl] by simp
next
  case (Inr p)
  obtain st' ok where r: "download_caption_v101 env u st video_id url safe_title is_srt = (st', ok)"
    by (cases "download_caption_v101 env u st video_id url safe_title is_srt") blast
  from download_caption_v101_listed [OF Inr r]
  consider (success) labels where "ok"
      "status_log st' = status_log st @ [CaptionDownloading, CaptionDone labels]"
    | (failure) "\<not> ok" "status_log st' = status_log st @
          [CaptionDownloading,
           case language_var u of Korean \<Rightarrow> NoKoreanSubtitle
           | English \<Rightarrow> NoEnglishSubtitle | AllLanguages \<Rightarrow> NoSubtitleFound]"
    by auto
  then show ?thesis
  proof cases
    case success
    then show ?thesis unfolding r by simp
  next
    case failure
    then show ?thesis unfolding r by (cases "language_var u") simp_all
  qed
qed

lemma all_languages_english_exact:
  assumes "list_transcripts env video_id = Inr p" "language_var u = AllLanguages"
    "fetch_and_save env (log_call (update_status st CaptionDownloading) (ListTranscripts video_id)) p
       (find_transcript p [''ko'']) (path_join env (download_path u) safe_title) is_srt ''_kr'' = Inl e"
    "fetch_and_save env (log_call (update_status st CaptionDownloading) (ListTranscripts video_id)) p
       (find_transcript p [''en'']) (path_join env (download_path u) safe_title) is_srt ''_en'' = Inr s2"
  shows "download_caption_v101 env u st video_id url safe_title is_srt =
     (s2\<lparr>status_log := status_log st @ [CaptionDownloading, CaptionDone [EnglishSub]],
         caption_progress := 100\<rparr>, True)"
proof -
  from fetch_and_save_effect [OF assms(4)] obtain f where
    "s2 = (log_call (update_status st CaptionDownloading) (ListTranscripts video_id))
            \<lparr>files := files (log_call (update_status st CaptionDownloading)
                                (ListTranscripts video_id)) @ [f]\<rparr>"
    by blast
  then have s: "status_log s2 = status_log st @ [CaptionDownloading]"
    by (simp add: update_status_def log_call_def)
  show ?thesis
    using assms s
    by (simp add: download_caption_v101_unfold korean_block_def english_block_def
        caption_result_def update_status_def)
qed

lemma all_languages_english_auto:
  assumes "list_transcripts env video_id = Inr p" "language_var u = AllLanguages"
    "fetch_and_save env (log_call (update_status st CaptionDownloading) (ListTranscripts video_id)) p
       (find_transcript p [''ko'']) (path_join env (download_path u) safe_title) is_srt ''_kr'' = Inl e"
    "fetch_and_save env (log_call (update_status st CaptionDownloading) (ListTranscripts video_id)) p
       (find_transcript p [''en'']) (path_join env (download_path u) safe_title) is_srt ''_en'' = Inl e2"
    "fetch_and_save env (log_call (update_status st CaptionDownloading) (ListTranscripts video_id)) p
       (find_generated_transcript p [''en'']) (path_join env (download_path u) safe_title) is_srt
       ''_auto_en'' = Inr s2"
  shows "download_caption_v101 env u st video_id url safe_title is_srt =
     (s2\<lparr>status_log := status_log st @ [CaptionDownloading, CaptionDone [EnglishAutoSub]],
         caption_progress := 100\<rparr>, True)"
proof -
  from fetch_and_save_effect [OF assms(5)] obtain f where
    "s2 = (log_call (update_status st CaptionDownloading) (ListTranscripts video_id))
            \<lparr>files := files (log_call (update_status st CaptionDownloading)
                                (ListTranscripts video_id)) @ [f]\<rparr>"
    by blast
  then have s: "status_log s2 = status_log st @ [CaptionDownloading]"
    by (simp add: update_status_def log_call_def)
  show ?thesis
    using assms s
    by (simp add: download_caption_v101_unfold korean_block_def english_block_def
        caption_result_def update_status_def)
qed

text \<open>
  Claim C2. With the language selection "all languages", a Korean block that fails (the
  lookup, the fetch or the write raised) and an English block that succeeds, either on the
  authored track or, when that one fails, on the auto-generated one,
  \<open>download_caption\<close> of v1.0.1 returns \<open>True\<close> and its status is the completion message
  naming the English track alone: the messages it adds are the downloading message and
  that completion message, nothing about Korean. In general \<open>download_caption\<close> adds the
  downloading message and exactly one more message, and that message is the no-Korean
  message only if the selection is Korean, the no-English message only if the selection
  is English.
\<close>

theorem all_languages_english_only:
  "(list_transcripts env video_id = Inr p \<and> language_var u = AllLanguages \<and>
    fetch_and_save env (log_call (update_status st CaptionDownloading) (ListTranscripts video_id)) p
      (find_transcript p [''ko'']) (path_join env (download_path u) safe_title) is_srt ''_kr'' = Inl e \<longrightarrow>
      (\<forall>s2. fetch_and_save env (log_call (update_status st CaptionDownloading) (ListTranscripts video_id)) p
              (find_transcript p [''en'']) (path_join env (download_path u) safe_title) is_srt ''_en''
              = Inr s2 \<longrightarrow>
            download_caption_v101 env u st video_id url safe_title is_srt =
              (s2\<lparr>status_log := status_log st @ [CaptionDownloading, CaptionDone [EnglishSub]],
                  caption_progress := 100\<rparr>, True)) \<and>
      (\<forall>e2 s2. fetch_and_save env (log_call (update_status st CaptionDownloading) (ListTranscripts video_id)) p
              (find_transcript p [''en'']) (path_join env (download_path u) safe_title) is_srt ''_en''
              = Inl e2 \<and>
            fetch_and_save env (log_call (update_status st CaptionDownloading) (ListTranscripts video_id)) p
              (find_generated_transcript p [''en'']) (path_join env (download_path u) safe_title) is_srt
              ''_auto_en'' = Inr s2 \<longrightarrow>
            download_caption_v101 env u st video_id url safe_title is_srt =
              (s2\<lparr>status_log := status_log st @ [CaptionDownloading, CaptionDone [EnglishAutoSub]],
                  caption_progress := 100\<rparr>, True))) \<and>
   (\<exists>m. status_log (fst (download_caption_v101 env u st video_id url safe_title is_srt)) =
          status_log st @ [CaptionDownloading, m] \<and>
        (m = NoKoreanSubtitle \<longrightarrow> language_var u = Korean) \<and>
        (m = NoEnglishSubtitle \<longrightarrow> language_var u = English))"
proof (intro conjI impI allI)
  fix s2
  assume "list_transcripts env video_id = Inr p \<and> language_var u = AllLanguages \<and>
    fetch_and_save env (log_call (update_status st CaptionDownloading) (ListTranscripts video_id)) p
      (find_transcript p [''ko'']) (path_join env (download_path u) safe_title) is_srt ''_kr'' = Inl e"
    and "fetch_and_save env (log_call (update_status st CaptionDownloading) (ListTranscripts video_id)) p
              (find_transcript p [''en'']) (path_join env (download_path u) safe_title) is_srt ''_en''
              = Inr s2"
  then show "download_caption_v101 env u st video_id url safe_title is_srt =
              (s2\<lparr>status_log := status_log st @ [CaptionDownloading, CaptionDone [EnglishSub]],
                  caption_progress := 100\<rparr>, True)"
    using all_languages_english_exact by blast
next
  fix e2 s2
  assume "list_transcripts env video_id = Inr p \<and> language_var u = AllLanguages \<and>
    fetch_and_save env (log_call (update_status st CaptionDownloading) (ListTranscripts video_id)) p
      (find_transcript p [''ko'']) (path_join env (download_path u) safe_title) is_srt ''_kr'' = Inl e"
    and "fetch_and_save env (log_call (update_status st CaptionDownloading) (ListTranscripts video_id)) p
              (find_transcript p [''en'']) (path_join env (download_path u) safe_title) is_srt ''_en''
              = Inl e2 \<and>
            fetch_and_save env (log_call (update_status st CaptionDownloading) (ListTranscripts video_id)) p
              (find_generated_transcript p [''en'']) (path_join env (download_path u) safe_title) is_srt
              ''_auto_en'' = Inr s2"
  then show "download_caption_v101 env u st video_id url safe_title is_srt =
              (s2\<lparr>status_log := status_log st @ [CaptionDownloading, CaptionDone [EnglishAutoSub]],
                  caption_progress := 100\<rparr>, True)"
    using all_languages_english_auto by blast
next
  from download_caption_v101_messages [of env u st video_id url safe_title is_srt]
  show "\<exists>m. status_log (fst (download_caption_v101 env u st video_id url safe_title is_srt)) =
          status_log st @ [CaptionDownloading, m] \<and>
        (m = NoKoreanSubtitle \<longrightarrow> language_var u = Korean) \<and>
        (m = NoEnglishSubtitle \<longrightarrow> language_var u = English)"
    by blast
qed

theorem all_languages_english_only_witness:
  "download_caption_v101 english_env demo_ui init_app ''abc123'' (url_entry demo_ui) ''MyClip'' False =
     (\<lparr>status_log = [CaptionDownloading, CaptionDone [EnglishSub]],
       caption_progress = 100, video_progress = 0, audio_progress = 0,
       files = [(''/tmp/MyClip_en.txt'', ''Hi'' @ [NL])],
       calls = [ListTranscripts ''abc123'']\<rparr>, True) \<and>
   download_caption_v101 (english_env\<lparr>list_transcripts := \<lambda>v. Inr auto_provider\<rparr>) demo_ui init_app
       ''abc123'' (url_entry demo_ui) ''MyClip'' False =
     (\<lparr>status_log = [CaptionDownloading, CaptionDone [EnglishAutoSub]],
       caption_progress = 100, video_progress = 0, audio_progress = 0,
       files = [(''/tmp/MyClip_auto_en.txt'', ''Hey'' @ [NL])],
       calls = [ListTranscripts ''abc123'']\<rparr>, True)"
proof -
  let ?st1 = "log_call (update_status init_app CaptionDownloading) (ListTranscripts ''abc123'')"
  let ?fp = "path_join english_env (download_path demo_ui) ''MyClip''"
  let ?auto_env = "english_env\<lparr>list_transcripts := \<lambda>v. Inr auto_provider\<rparr>"
  let ?s2 = "\<lparr>status_log = [CaptionDownloading], caption_progress = 0, video_progress = 0,
      audio_progress = 0, files = [(''/tmp/MyClip_en.txt'', ''Hi'' @ [NL])],
      calls = [ListTranscripts ''abc123'']\<rparr>"
  let ?s3 = "\<lparr>status_log = [CaptionDownloading], caption_progress = 0, video_progress = 0,
      audio_progress = 0, files = [(''/tmp/MyClip_auto_en.txt'', ''Hey'' @ [NL])],
      calls = [ListTranscripts ''abc123'']\<rparr>"
  have l: "list_transcripts english_env ''abc123'' = Inr english_provider"
    "language_var demo_ui = AllLanguages"
    by (simp_all add: english_env_def demo_ui_def)
  have ko: "fetch_and_save english_env ?st1 english_provider
      (find_transcript english_provider [''ko'']) ?fp False ''_kr'' = Inl NoTranscriptFound"
    by (simp add: fetch_and_save_def english_provider_def)
  have en: "fetch_and_save english_env ?st1 english_provider
      (find_transcript english_provider [''en'']) ?fp False ''_en'' = Inr ?s2"
    by (simp add: fetch_and_save_def save_caption_to_file_def english_provider_def english_env_def
        demo_ui_def init_app_def update_status_def log_call_def Let_def)
  have i: "status_log init_app = []"
    by (simp add: init_app_def)
  from all_languages_english_only [of english_env "''abc123''" english_provider demo_ui init_app
      "''MyClip''" False NoTranscriptFound "url_entry demo_ui"] l ko en
  have a: "download_caption_v101 english_env demo_ui init_app ''abc123'' (url_entry demo_ui)
      ''MyClip'' False =
      (?s2\<lparr>status_log := status_log init_app @ [CaptionDownloading, CaptionDone [EnglishSub]],
           caption_progress := 100\<rparr>, True)"
    by blast
  have l': "list_transcripts ?auto_env ''abc123'' = Inr auto_provider"
    by simp
  have fp: "path_join ?auto_env (download_path demo_ui) ''MyClip'' = ?fp"
    by simp
  have ko': "fetch_and_save ?auto_env ?st1 auto_provider
      (find_transcript auto_provider [''ko'']) ?fp False ''_kr'' = Inl NoTranscriptFound"
    by (simp add: fetch_and_save_def auto_provider_def)
  have en': "fetch_and_save ?auto_env ?st1 auto_provider
      (find_transcript auto_provider [''en'']) ?fp False ''_en'' = Inl NoTranscriptFound"
    by (simp add: fetch_and_save_def auto_provider_def)
  have au': "fetch_and_save ?auto_env ?st1 auto_provider
      (find_generated_transcript auto_provider [''en'']) ?fp False ''_auto_en'' = Inr ?s3"
    by (simp add: fetch_and_save_def save_caption_to_file_def auto_provider_def english_env_def
        demo_ui_def init_app_def update_status_def log_call_def Let_def)
  from all_languages_english_only [of ?auto_env "''abc123''" auto_provider demo_ui init_app
      "''MyClip''" False NoTranscriptFound "url_entry demo_ui"] l' l(2) ko' en' au'
  have b: "download_caption_v101 ?auto_env demo_ui init_app ''abc123'' (url_entry demo_ui)
      ''MyClip'' False =
      (?s3\<lparr>status_log := status_log init_app @ [CaptionDownloading, CaptionDone [EnglishAutoSub]],
           caption_progress := 100\<rparr>, True)"
    unfolding fp by blast
  from a b i show ?thesis by simp
qed

section \<open>Properties of the session summary\<close>

text \<open>
  \<open>run_tasks\<close> of v1.0.1 with the dictionary lookups of its summary written out as
  conditions on the three check boxes and the three flags.
\<close>

lemma run_tasks_v101_summary:
  assumes "c = (if sub_check u
            then download_caption_v101 env u st video_id url safe_title (srt_check u)
            else (st, False))"
    and "v = (if video_check u then download_video_audio_v101 env u (fst c) url safe_title Video
            else (fst c, False))"
    and "a = (if audio_check u then download_video_audio_v101 env u (fst v) url safe_title Audio
            else (fst v, False))"
  shows "run_tasks_v101 env u video_id url safe_title st =
      (if sub_check u \<and> \<not> video_check u \<and> \<not> audio_check u \<and> \<not> snd c then fst c
       else if (sub_check u \<longrightarrow> snd c) \<and> (video_check u \<longrightarrow> snd v) \<and> (audio_check u \<longrightarrow> snd a)
         then update_status (fst a) AllCompleted
       else if (video_check u \<and> snd v) \<or> (audio_check u \<and> snd a)
         then update_status (fst a) PartiallyCompleted
       else fst a)"
proof -
  have r: "run_tasks_v101 env u video_id url safe_title st =
      summarize_v101 u (\<lambda>opt. case opt of OptCaption \<Rightarrow> snd c | OptVideo \<Rightarrow> snd v
                             | OptAudio \<Rightarrow> snd a) (fst a)"
    unfolding run_tasks_v101_def assms by (simp add: case_prod_beta Let_def)
  show ?thesis
    unfolding r summarize_v101_def options_selected_def Let_def using assms
    by (cases "sub_check u"; cases "video_check u"; cases "audio_check u") simp_all
qed

text \<open>
  Claim C3, for v1.0.1. Let \<open>c\<close>, \<open>v\<close> and \<open>a\<close> be the state and the flag after the
  caption, video and audio step of \<open>run_tasks\<close> (a step that is not selected leaves the
  state and gives \<open>False\<close>). When captions are the only selected option and the caption
  task returned \<open>False\<close>, \<open>run_tasks\<close> adds no message: the state is the one
  \<open>download_caption\<close> left, whose last status is one of its failure messages.
  Otherwise, when every selected task returned \<open>True\<close> the full-completion message is
  added; else when a selected video or audio task returned \<open>True\<close> the
  partial-completion message is added; else nothing is added.
  In v1.0.0 the tasks return nothing and \<open>download_caption\<close> catches its own exceptions:
  after a caption-only session the full-completion message is added in every case.
\<close>

theorem session_summary_v101:
  "c = (if sub_check u
        then download_caption_v101 env u st video_id url safe_title (srt_check u)
        else (st, False)) \<and>
   v = (if video_check u then download_video_audio_v101 env u (fst c) url safe_title Video
        else (fst c, False)) \<and>
   a = (if audio_check u then download_video_audio_v101 env u (fst v) url safe_title Audio
        else (fst v, False)) \<longrightarrow>
   run_tasks_v101 env u video_id url safe_title st =
     (if sub_check u \<and> \<not> video_check u \<and> \<not> audio_check u \<and> \<not> snd c then fst c
      else if (sub_check u \<longrightarrow> snd c) \<and> (video_check u \<longrightarrow> snd v) \<and> (audio_check u \<longrightarrow> snd a)
        then update_status (fst a) AllCompleted
      else if (video_check u \<and> snd v) \<or> (audio_check u \<and> snd a)
        then update_status (fst a) PartiallyCompleted
      else fst a) \<and>
   (sub_check u \<and> \<not> video_check u \<and> \<not> audio_check u \<and> \<not> snd c \<longrightarrow>
      (\<exists>m. status_log (run_tasks_v101 env u video_id url safe_title st) =
              status_log st @ [CaptionDownloading, m] \<and>
           (m = NoKoreanSubtitle \<or> m = NoEnglishSubtitle \<or> m = NoSubtitleFound \<or>
            (\<exists>e. m = CaptionFailed e)))) \<and>
   run_tasks_v100 env u video_id url safe_title st [CaptionTask] =
     update_status (download_caption_v100 env u st video_id url safe_title (srt_check u))
       AllCompleted"
proof (intro impI conjI)
  assume h: "c = (if sub_check u
        then download_caption_v101 env u st video_id url safe_title (srt_check u)
        else (st, False)) \<and>
   v = (if video_check u then download_video_audio_v101 env u (fst c) url safe_title Video
        else (fst c, False)) \<and>
   a = (if audio_check u then download_video_audio_v101 env u (fst v) url safe_title Audio
        else (fst v, False))"
  then show r: "run_tasks_v101 env u video_id url safe_title st =
     (if sub_check u \<and> \<not> video_check u \<and> \<not> audio_check u \<and> \<not> snd c then fst c
      else if (sub_check u \<longrightarrow> snd c) \<and> (video_check u \<longrightarrow> snd v) \<and> (audio_check u \<longrightarrow> snd a)
        then update_status (fst a) AllCompleted
      else if (video_check u \<and> snd v) \<or> (audio_check u \<and> snd a)
        then update_status (fst a) PartiallyCompleted
      else fst a)"
    by (intro run_tasks_v101_summary) simp_all
  assume o: "sub_check u \<and> \<not> video_check u \<and> \<not> audio_check u \<and> \<not> snd c"
  with h have c: "c = download_caption_v101 env u st video_id url safe_title (srt_check u)"
    by simp
  from r o have "run_tasks_v101 env u video_id url safe_title st = fst c"
    by simp
  with download_caption_v101_messages [of env u st video_id url safe_title "srt_check u"] o
  show "\<exists>m. status_log (run_tasks_v101 env u video_id url safe_title st) =
              status_log st @ [CaptionDownloading, m] \<and>
           (m = NoKoreanSubtitle \<or> m = NoEnglishSubtitle \<or> m = NoSubtitleFound \<or>
            (\<exists>e. m = CaptionFailed e))"
    unfolding c by auto
next
  show "run_tasks_v100 env u video_id url safe_title st [CaptionTask] =
     update_status (download_caption_v100 env u st video_id url safe_title (srt_check u))
       AllCompleted"
    by (simp add: run_tasks_v100_def run_task_v100_def)
qed

theorem session_summary_v101_witness:
  "status_log (run_tasks_v101 demo_env demo_ui ''abc123'' (url_entry demo_ui) ''MyClip'' init_app) =
     [CaptionDownloading, CaptionFailed (LibraryError ''Subtitles are disabled for this video'')] \<and>
   status_log (run_tasks_v101 demo_env (demo_ui\<lparr>video_check := True\<rparr>) ''abc123''
       (url_entry demo_ui) ''MyClip'' init_app) =
     [CaptionDownloading, CaptionFailed (LibraryError ''Subtitles are disabled for this video''),
      PartiallyCompleted] \<and>
   status_log (run_tasks_v101 english_env (demo_ui\<lparr>video_check := True\<rparr>) ''abc123''
       (url_entry demo_ui) ''MyClip'' init_app) =
     [CaptionDownloading, CaptionDone [EnglishSub], AllCompleted]"
proof -
  let ?url = "url_entry demo_ui"
  let ?uv = "demo_ui\<lparr>video_check := True\<rparr>"
  let ?c1 = "download_caption_v101 demo_env demo_ui init_app ''abc123'' ?url ''MyClip'' False"
  let ?c2 = "download_caption_v101 demo_env ?uv init_app ''abc123'' ?url ''MyClip'' False"
  let ?v2 = "download_video_audio_v101 demo_env ?uv (fst ?c2) ?url ''MyClip'' Video"
  let ?c3 = "download_caption_v101 english_env ?uv init_app ''abc123'' ?url ''MyClip'' False"
  let ?v3 = "download_video_audio_v101 english_env ?uv (fst ?c3) ?url ''MyClip'' Video"
  have u: "sub_check demo_ui" "\<not> video_check demo_ui" "\<not> audio_check demo_ui"
    "\<not> srt_check demo_ui" "sub_check ?uv" "video_check ?uv" "\<not> audio_check ?uv" "\<not> srt_check ?uv"
    by (simp_all add: demo_ui_def)
  have e1: "\<not> snd ?c1"
    "status_log (fst ?c1) =
       [CaptionDownloading, CaptionFailed (LibraryError ''Subtitles are disabled for this video'')]"
    by code_simp+
  have e2: "\<not> snd ?c2" "snd ?v2"
    "status_log (fst ?v2) =
       [CaptionDownloading, CaptionFailed (LibraryError ''Subtitles are disabled for this video'')]"
    by code_simp+
  have e3: "snd ?c3" "snd ?v3"
    "status_log (fst ?v3) = [CaptionDownloading, CaptionDone [EnglishSub]]"
    by code_simp+
  from session_summary_v101 [where u = demo_ui and env = demo_env and st = init_app
      and video_id = "''abc123''" and url = ?url and safe_title = "''MyClip''"
      and c = ?c1 and v = "(fst ?c1, False)" and a = "(fst ?c1, False)"] u e1
  have s1: "status_log (run_tasks_v101 demo_env demo_ui ''abc123'' ?url ''MyClip'' init_app) =
     [CaptionDownloading, CaptionFailed (LibraryError ''Subtitles are disabled for this video'')]"
    by simp
  from session_summary_v101 [where u = ?uv and env = demo_env and st = init_app
      and video_id = "''abc123''" and url = ?url and safe_title = "''MyClip''"
      and c = ?c2 and v = ?v2 and a = "(fst ?v2, False)"] u e2
  have s2: "status_log (run_tasks_v101 demo_env ?uv ''abc123'' ?url ''MyClip'' init_app) =
     [CaptionDownloading, CaptionFailed (LibraryError ''Subtitles are disabled for this video''),
      PartiallyCompleted]"
    by (simp add: update_status_def)
  from session_summary_v101 [where u = ?uv and env = english_env and st = init_app
      and video_id = "''abc123''" and url = ?url and safe_title = "''MyClip''"
      and c = ?c3 and v = ?v3 and a = "(fst ?v3, False)"] u e3
  have s3: "status_log (run_tasks_v101 english_env ?uv ''abc123'' ?url ''MyClip'' init_app) =
     [CaptionDownloading, CaptionDone [EnglishSub], AllCompleted]"
    by (simp add: update_status_def)
  from s1 s2 s3 show ?thesis by blast
qed

text \<open>
  Claim C3 as stated, on v1.0.0: captions are the only selected option, the transcript
  list cannot be read, \<open>download_caption\<close> reports the failure and writes no file, and
  \<open>run_tasks\<close> then sets the full-completion message, which is the final status.
\<close>

theorem caption_only_failure_v100_counterexample:
  "url_entry demo_ui \<noteq> [] \<and> sub_check demo_ui \<and> \<not> video_check demo_ui \<and> \<not> audio_check demo_ui \<and>
   list_transcripts demo_env (video_id_of (url_entry demo_ui)) =
     Inl (LibraryError ''Subtitles are disabled for this video'') \<and>
   files (start_download_v100 demo_env demo_ui init_app) = [] \<and>
   status_log (start_download_v100 demo_env demo_ui init_app) =
     [CaptionFailed (LibraryError ''Subtitles are disabled for this video''), AllCompleted]"
proof -
  have "list_transcripts demo_env (video_id_of (url_entry demo_ui)) =
      Inl (LibraryError ''Subtitles are disabled for this video'')"
    by (simp add: demo_env_def)
  moreover have "url_entry demo_ui \<noteq> []" "sub_check demo_ui" "\<not> video_check demo_ui"
    "\<not> audio_check demo_ui"
    by (simp_all add: demo_ui_def)
  moreover have "files (start_download_v100 demo_env demo_ui init_app) = []"
    by code_simp
  moreover have "status_log (start_download_v100 demo_env demo_ui init_app) =
      [CaptionFailed (LibraryError ''Subtitles are disabled for this video''), AllCompleted]"
    by code_simp
  ultimately show ?thesis by blast
qed

end
